theory Spec2Isabelle
  imports Main
begin

section \<open>Documents, permissions and errors\<close>

text \<open>
  The record handlers of \<^verbatim>\<open>src/hydro/handler/record.ts\<close>. An \<^verbatim>\<open>ObjectID\<close> is
  represented by its canonical hexadecimal string, so \<^verbatim>\<open>toString()\<close> is the identity.
\<close>

type_synonym ObjectID = string

definition ObjectID_toString :: "ObjectID \<Rightarrow> string" where
  "ObjectID_toString oid = oid"

type_synonym Fields = "(string \<times> string) list"

datatype PERM = PERM_VIEW_PROBLEM_HIDDEN | PERM_READ_RECORD_CODE | PERM_REJUDGE

datatype errarg = ArgId ObjectID | ArgPerm PERM

datatype error =
    RecordNotFoundError ObjectID
  | PermissionError errarg
  | TypeError
  | InvalidObjectID string
  | CollaboratorError string

record RdocContest =
  contest_type :: int
  contest_tid :: ObjectID

record Rdoc =
  rdoc_domainId :: string
  rdoc_id :: ObjectID
  rdoc_uid :: int
  rdoc_pid :: string
  rdoc_contest :: "RdocContest option"
  rdoc_hidden :: bool
  rdoc_status :: int
  rdoc_score :: int
  rdoc_rejudged :: bool
  rdoc_code :: "string option"

record Pdoc =
  pdoc_pid :: string
  pdoc_title :: string
  pdoc_hidden :: bool

record Udoc =
  udoc_id :: int
  udoc_uname :: string

record Tdoc =
  tdoc_docId :: ObjectID
  tdoc_rule :: string

record User =
  user_uid :: int
  user_perms :: "PERM list"

definition hasPerm :: "User \<Rightarrow> PERM \<Rightarrow> bool" where
  "hasPerm u p = (p \<in> set (user_perms u))"

text \<open>
  Modelled from the spec: \<^verbatim>\<open>Handler.checkPerm\<close> of \<^verbatim>\<open>service/server\<close>, the gate of a
  privileged operation: it raises a permission error unless the user holds the permission.
\<close>

definition checkPerm :: "User \<Rightarrow> PERM \<Rightarrow> error + unit" where
  "checkPerm u p = (if hasPerm u p then Inr () else Inl (PermissionError (ArgPerm p)))"

section \<open>Change events, render contexts and outgoing messages\<close>

text \<open>
  The payload of a \<^verbatim>\<open>record_change\<close> event is \<^verbatim>\<open>data.value = { rdoc, $set, $push }\<close>;
  \<^verbatim>\<open>$set\<close> and \<^verbatim>\<open>$push\<close> are separately optional (\<open>None\<close> is \<^verbatim>\<open>undefined\<close>). An object is
  truthy in JavaScript even when it has no keys, so \<open>Some []\<close> is a present component.
\<close>

record Event =
  ev_rdoc :: Rdoc
  ev_set :: "Fields option"
  ev_push :: "Fields option"

datatype RenderCtx =
    RowCtx Rdoc "Udoc option" "Pdoc option"
  | DetailCtx Rdoc

fun ctx_rdoc :: "RenderCtx \<Rightarrow> Rdoc" where
  "ctx_rdoc (RowCtx rdoc udoc pdoc) = rdoc"
| "ctx_rdoc (DetailCtx rdoc) = rdoc"

datatype Msg =
    HtmlMsg string
  | SnapshotMsg string string
  | PatchMsg "Fields option" "Fields option"

datatype Response =
    Page string "(string \<times> string option) list" "Udoc option" Rdoc "Pdoc option"
  | Back

section \<open>Collaborators outside the excerpt\<close>

text \<open>
  The models \<^verbatim>\<open>user\<close>, \<^verbatim>\<open>problem\<close>, \<^verbatim>\<open>contest\<close>, the mixin method \<^verbatim>\<open>canShowRecord\<close>, the
  template renderer and the driver's \<^verbatim>\<open>ObjectID\<close> constructor are not part of the
  excerpt; they are parameters. A domain id is \<open>None\<close> where the handler passes a property
  that was never assigned. \<^verbatim>\<open>canShowRecord\<close> takes its optional second argument as an
  option. \<^verbatim>\<open>new_ObjectID\<close> is \<open>None\<close> where the constructor throws.
\<close>

record Collab =
  user_getById :: "string option \<Rightarrow> int \<Rightarrow> Udoc option"
  problem_get :: "string option \<Rightarrow> string \<Rightarrow> Pdoc option"
  contest_get :: "string \<Rightarrow> ObjectID \<Rightarrow> int \<Rightarrow> error + Tdoc"
  canShowRecord :: "User \<Rightarrow> Tdoc \<Rightarrow> bool option \<Rightarrow> bool"
  renderHTML :: "string \<Rightarrow> RenderCtx \<Rightarrow> string"
  new_ObjectID :: "string \<Rightarrow> ObjectID option"

section \<open>The record store\<close>

record Store =
  records :: "Rdoc list"
  judge_queue :: "(string \<times> ObjectID) list"

text \<open>
  Modelled from the spec: \<^verbatim>\<open>record.get\<close> and \<^verbatim>\<open>record.getMulti\<close> of \<^verbatim>\<open>model/record\<close>
  ("fetch record by id", "fetch records matching a filter"); a missing record is \<open>None\<close>,
  the \<^verbatim>\<open>null\<close> that the handlers test for.
\<close>

definition record_get :: "Store \<Rightarrow> string \<Rightarrow> ObjectID \<Rightarrow> Rdoc option" where
  "record_get st domainId rid =
     find (\<lambda>r. rdoc_domainId r = domainId \<and> rdoc_id r = rid) (records st)"

definition record_getMulti_in :: "Store \<Rightarrow> string option \<Rightarrow> ObjectID list \<Rightarrow> Rdoc list" where
  "record_getMulti_in st domainId rids =
     filter (\<lambda>r. Some (rdoc_domainId r) = domainId \<and> rdoc_id r \<in> set rids) (records st)"

text \<open>
  Modelled from the spec: \<^verbatim>\<open>record.reset\<close> ("reset record state") and \<^verbatim>\<open>record.judge\<close>
  ("enqueue record for judging") of \<^verbatim>\<open>model/record\<close>.
\<close>

definition record_reset :: "string \<Rightarrow> ObjectID \<Rightarrow> bool \<Rightarrow> Store \<Rightarrow> Store" where
  "record_reset domainId rid isRejudge st =
     st\<lparr>records :=
          map (\<lambda>r. if rdoc_domainId r = domainId \<and> rdoc_id r = rid
                    then r\<lparr>rdoc_status := 0, rdoc_score := 0, rdoc_rejudged := isRejudge\<rparr>
                    else r)
              (records st)\<rparr>"

definition record_judge :: "string \<Rightarrow> ObjectID \<Rightarrow> Store \<Rightarrow> Store" where
  "record_judge domainId rid st = st\<lparr>judge_queue := judge_queue st @ [(domainId, rid)]\<rparr>"

section \<open>The event bus\<close>

text \<open>
  Modelled from the spec: \<^verbatim>\<open>service/bus\<close>, a subscription table of (topic, subscriber id)
  entries owned by the bus. \<^verbatim>\<open>subscribe\<close> enters one entry per topic under a new id and
  returns the id; \<^verbatim>\<open>unsubscribe\<close> removes the entries of that id under the given topics,
  and does nothing for an id that was never assigned. The callback of an entry is the
  bound \<^verbatim>\<open>onRecordChange\<close> of the session that holds the id.
\<close>

record Bus =
  bus_hooks :: "(string \<times> nat) list"
  bus_next :: nat

definition bus_subscribe :: "string list \<Rightarrow> Bus \<Rightarrow> nat \<times> Bus" where
  "bus_subscribe events b =
     (bus_next b,
      b\<lparr>bus_hooks := bus_hooks b @ map (\<lambda>e. (e, bus_next b)) events,
        bus_next := Suc (bus_next b)\<rparr>)"

definition bus_unsubscribe :: "string list \<Rightarrow> nat option \<Rightarrow> Bus \<Rightarrow> Bus" where
  "bus_unsubscribe events sid b =
     (case sid of
        None \<Rightarrow> b
      | Some i \<Rightarrow> b\<lparr>bus_hooks := filter (\<lambda>(e, j). \<not> (e \<in> set events \<and> j = i)) (bus_hooks b)\<rparr>)"

definition bus_subscribed :: "Bus \<Rightarrow> string \<Rightarrow> nat option \<Rightarrow> bool" where
  "bus_subscribed b e sid = (case sid of None \<Rightarrow> False | Some i \<Rightarrow> (e, i) \<in> set (bus_hooks b))"

definition bus_ids :: "Bus \<Rightarrow> nat list" where
  "bus_ids b = map snd (bus_hooks b)"

definition bus_wf :: "Bus \<Rightarrow> bool" where
  "bus_wf b = list_all (\<lambda>i. i < bus_next b) (bus_ids b)"

section \<open>Request handlers\<close>

definition RecordDetailHandler_get ::
  "Collab \<Rightarrow> Store \<Rightarrow> User \<Rightarrow> string \<Rightarrow> ObjectID \<Rightarrow> error + Response" where
  "RecordDetailHandler_get co st user domainId rid =
     (case record_get st domainId rid of
        None \<Rightarrow> Inl (RecordNotFoundError rid)
      | Some rdoc \<Rightarrow>
          (case (case rdoc_contest rdoc of
                   None \<Rightarrow> None
                 | Some c \<Rightarrow>
                     (case contest_get co domainId (contest_tid c) (contest_type c) of
                        Inl e \<Rightarrow> Some e
                      | Inr tdoc \<Rightarrow>
                          if \<not> canShowRecord co user tdoc (Some True)
                          then Some (PermissionError (ArgId rid)) else None)) of
             Some e \<Rightarrow> Inl e
           | None \<Rightarrow>
               (let rdoc' = (if rdoc_uid rdoc \<noteq> user_uid user
                                 \<and> \<not> hasPerm user PERM_READ_RECORD_CODE
                             then rdoc\<lparr>rdoc_code := None\<rparr> else rdoc);
                    pdoc = problem_get co (Some domainId) (rdoc_pid rdoc');
                    udoc = user_getById co (Some domainId) (rdoc_uid rdoc')
                in Inr (Page ''record_detail.html''
                          [(''Hydro'', Some ''homepage''), (''record_detail'', None)]
                          udoc rdoc' pdoc))))"

definition RecordRejudgeHandler_post ::
  "Store \<Rightarrow> User \<Rightarrow> string \<Rightarrow> ObjectID \<Rightarrow> (error + Response) \<times> Store" where
  "RecordRejudgeHandler_post st user domainId rid =
     (case checkPerm user PERM_REJUDGE of
        Inl e \<Rightarrow> (Inl e, st)
      | Inr _ \<Rightarrow>
          (case record_get st domainId rid of
             Some rdoc \<Rightarrow> (Inr Back, record_judge domainId rid (record_reset domainId rid True st))
           | None \<Rightarrow> (Inr Back, st)))"

section \<open>Connection sessions\<close>

text \<open>
  The fields that a connection handler instance carries. \<open>conn_id\<close> is the subscriber id
  (\<open>None\<close> before \<^verbatim>\<open>subscribe\<close> assigns it), \<open>conn_sent\<close> the messages written to the
  transport, oldest first, and \<open>conn_rendered\<close> the calls of the template renderer, oldest
  first. The handler methods are \<^verbatim>\<open>async\<close>: a call runs up to its first \<^verbatim>\<open>await\<close> and
  leaves a pending task, which is resumed later and runs up to the next \<^verbatim>\<open>await\<close> or to
  the end of the method; other calls may run in between.
\<close>

record ConnectionHandler =
  conn_user :: User
  conn_id :: "nat option"
  conn_closed :: bool
  conn_sent :: "Msg list"
  conn_rendered :: "(string \<times> RenderCtx) list"

datatype tid_value = TidString string | TidObject ObjectID

record RecordMainConnectionHandler = ConnectionHandler +
  conn_domainId :: "string option"
  conn_tid :: "tid_value option"

record RecordDetailConnectionHandler = ConnectionHandler +
  conn_rid :: "string option"

definition send :: "Msg \<Rightarrow> 'a ConnectionHandler_scheme \<Rightarrow> 'a ConnectionHandler_scheme" where
  "send m h = h\<lparr>conn_sent := conn_sent h @ [m]\<rparr>"

definition close :: "'a ConnectionHandler_scheme \<Rightarrow> 'a ConnectionHandler_scheme" where
  "close h = h\<lparr>conn_closed := True\<rparr>"

definition render ::
  "Collab \<Rightarrow> string \<Rightarrow> RenderCtx \<Rightarrow> 'a ConnectionHandler_scheme
     \<Rightarrow> string \<times> 'a ConnectionHandler_scheme" where
  "render co name ctx h =
     (renderHTML co name ctx, h\<lparr>conn_rendered := conn_rendered h @ [(name, ctx)]\<rparr>)"

definition subscribe_record_change ::
  "'a ConnectionHandler_scheme \<Rightarrow> Bus \<Rightarrow> 'a ConnectionHandler_scheme \<times> Bus" where
  "subscribe_record_change h b =
     (let (i, b') = bus_subscribe [''record_change''] b in (h\<lparr>conn_id := Some i\<rparr>, b'))"

text \<open>
  How the \<^verbatim>\<open>param\<close> decorator hands over the optional \<^verbatim>\<open>tid\<close> is not part of the excerpt:
  it is either the string of the request or an \<^verbatim>\<open>ObjectID\<close> object. \<^verbatim>\<open>if (tid)\<close> is the
  truthiness of that value, and \<^verbatim>\<open>s !== this.tid\<close> with a string \<open>s\<close> on the left is false
  only for an equal string.
\<close>

fun truthy :: "tid_value option \<Rightarrow> bool" where
  "truthy None = False"
| "truthy (Some (TidString s)) = (s \<noteq> [])"
| "truthy (Some (TidObject oid)) = True"

fun strict_neq :: "string \<Rightarrow> tid_value option \<Rightarrow> bool" where
  "strict_neq s None = True"
| "strict_neq s (Some (TidString t)) = (s \<noteq> t)"
| "strict_neq s (Some (TidObject oid)) = True"

fun ObjectID_of :: "Collab \<Rightarrow> tid_value \<Rightarrow> error + ObjectID" where
  "ObjectID_of co (TidString s) =
     (case new_ObjectID co s of None \<Rightarrow> Inl (InvalidObjectID s) | Some oid \<Rightarrow> Inr oid)"
| "ObjectID_of co (TidObject oid) = Inr oid"

fun new_ObjectIDs :: "Collab \<Rightarrow> string list \<Rightarrow> error + ObjectID list" where
  "new_ObjectIDs co [] = Inr []"
| "new_ObjectIDs co (s # ss) =
     (case new_ObjectID co s of
        None \<Rightarrow> Inl (InvalidObjectID s)
      | Some oid \<Rightarrow>
          (case new_ObjectIDs co ss of Inl e \<Rightarrow> Inl e | Inr oids \<Rightarrow> Inr (oid # oids)))"

subsection \<open>List view\<close>

text \<open>
  \<^verbatim>\<open>onRecordChange\<close> with each \<^verbatim>\<open>await\<close> resolved at once, that is one call run from its
  first statement to its last with nothing in between.
\<close>

definition RecordMainConnectionHandler_onRecordChange ::
  "Collab \<Rightarrow> Event \<Rightarrow> RecordMainConnectionHandler \<Rightarrow> RecordMainConnectionHandler" where
  "RecordMainConnectionHandler_onRecordChange co data h =
     (let rdoc = ev_rdoc data in
      if (case rdoc_contest rdoc of
            None \<Rightarrow> False
          | Some c \<Rightarrow> strict_neq (ObjectID_toString (contest_tid c)) (conn_tid h))
      then h
      else
        (let udoc = user_getById co (conn_domainId h) (rdoc_uid rdoc);
             pdoc = problem_get co (conn_domainId h) (rdoc_pid rdoc)
         in if (case pdoc of
                  None \<Rightarrow> False
                | Some p \<Rightarrow> pdoc_hidden p \<and> \<not> hasPerm (conn_user h) PERM_VIEW_PROBLEM_HIDDEN)
            then h
            else (let (html, h') = render co ''record_main_tr.html'' (RowCtx rdoc udoc pdoc) h
                  in send (HtmlMsg html) h')))"

text \<open>
  The pending tasks of a list session, one for each \<^verbatim>\<open>await\<close> of the class:
  \<^item> \<open>MPrepareContest domainId tid oid\<close>: \<^verbatim>\<open>prepare\<close> waits for \<^verbatim>\<open>contest.get\<close>;
  \<^item> \<open>MMessageRecords domainId rids\<close>: \<^verbatim>\<open>message\<close> waits for \<^verbatim>\<open>record.getMulti(...).toArray()\<close>;
  \<^item> \<open>MChangeDocs rdoc domainId\<close>: \<^verbatim>\<open>onRecordChange\<close> waits for the user and the problem
    (\<^verbatim>\<open>Promise.all\<close>), asked for under the \<^verbatim>\<open>this.domainId\<close> read at the call;
  \<^item> \<open>MChangeRow html\<close>: \<^verbatim>\<open>onRecordChange\<close> waits for the rendered row \<open>html\<close>.
\<close>

datatype MainTask =
    MPrepareContest string tid_value ObjectID
  | MMessageRecords "string option" "ObjectID list"
  | MChangeDocs Rdoc "string option"
  | MChangeRow string

text \<open>
  The part of \<^verbatim>\<open>onRecordChange\<close> before its first \<^verbatim>\<open>await\<close>: the contest test, then the two
  fetches are started. It changes no field.
\<close>

definition RecordMainConnectionHandler_onRecordChange_start ::
  "Event \<Rightarrow> RecordMainConnectionHandler \<Rightarrow> MainTask list" where
  "RecordMainConnectionHandler_onRecordChange_start data h =
     (let rdoc = ev_rdoc data in
      if (case rdoc_contest rdoc of
            None \<Rightarrow> False
          | Some c \<Rightarrow> strict_neq (ObjectID_toString (contest_tid c)) (conn_tid h))
      then []
      else [MChangeDocs rdoc (conn_domainId h)])"

text \<open>
  The part of \<^verbatim>\<open>prepare\<close> before its first \<^verbatim>\<open>await\<close>. Without a filter there is no
  \<^verbatim>\<open>await\<close> and the subscription is made in the same run.
\<close>

definition RecordMainConnectionHandler_prepare ::
  "Collab \<Rightarrow> string \<Rightarrow> tid_value option \<Rightarrow> RecordMainConnectionHandler \<Rightarrow> Bus
     \<Rightarrow> error option \<times> RecordMainConnectionHandler \<times> Bus \<times> MainTask list" where
  "RecordMainConnectionHandler_prepare co domainId tid h b =
     (let h1 = h\<lparr>conn_domainId := Some domainId\<rparr> in
      case (if truthy tid then tid else None) of
        None \<Rightarrow> (let (h2, b') = subscribe_record_change h1 b in (None, h2, b', []))
      | Some t \<Rightarrow>
          (case ObjectID_of co t of
             Inl e \<Rightarrow> (Some e, h1, b, [])
           | Inr oid \<Rightarrow> (None, h1, b, [MPrepareContest domainId t oid])))"

text \<open>
  A resync request carries \<^verbatim>\<open>rids\<close>; \<open>None\<close> is a message whose \<^verbatim>\<open>rids\<close> is not an array.
  The ids are converted before the query, so one malformed id makes the call throw before
  the query is made. This is the part of \<^verbatim>\<open>message\<close> before its \<^verbatim>\<open>await\<close>.
\<close>

definition RecordMainConnectionHandler_message ::
  "Collab \<Rightarrow> string list option \<Rightarrow> RecordMainConnectionHandler
     \<Rightarrow> error option \<times> MainTask list" where
  "RecordMainConnectionHandler_message co msg_rids h =
     (case msg_rids of
        None \<Rightarrow> (None, [])
      | Some ids \<Rightarrow>
          (case new_ObjectIDs co ids of
             Inl e \<Rightarrow> (Some e, [])
           | Inr rids \<Rightarrow> (None, [MMessageRecords (conn_domainId h) rids])))"

text \<open>
  What a pending task does when it is resumed, up to the next \<^verbatim>\<open>await\<close> or the end of its
  method: the error thrown if any, the handler, the bus and the tasks it leaves pending.
  \<^verbatim>\<open>message\<close> calls \<^verbatim>\<open>onRecordChange\<close> for each record without awaiting it, so each call
  runs to its own first \<^verbatim>\<open>await\<close>.
\<close>

fun main_resume ::
  "Collab \<Rightarrow> Store \<Rightarrow> MainTask \<Rightarrow> RecordMainConnectionHandler \<Rightarrow> Bus
     \<Rightarrow> error option \<times> RecordMainConnectionHandler \<times> Bus \<times> MainTask list" where
  "main_resume co st (MPrepareContest domainId tid oid) h b =
     (case contest_get co domainId oid (- 1) of
        Inl e \<Rightarrow> (Some e, h, b, [])
      | Inr tdoc \<Rightarrow>
          if canShowRecord co (conn_user h) tdoc None
          then (let (h2, b') = subscribe_record_change (h\<lparr>conn_tid := Some tid\<rparr>) b
                in (None, h2, b', []))
          else (None, close h, b, []))"
| "main_resume co st (MMessageRecords domainId rids) h b =
     (None, h, b,
      concat (map (\<lambda>rdoc. RecordMainConnectionHandler_onRecordChange_start
                             \<lparr>ev_rdoc = rdoc, ev_set = None, ev_push = None\<rparr> h)
                  (record_getMulti_in st domainId rids)))"
| "main_resume co st (MChangeDocs rdoc domainId) h b =
     (let udoc = user_getById co domainId (rdoc_uid rdoc);
          pdoc = problem_get co domainId (rdoc_pid rdoc)
      in if (case pdoc of
               None \<Rightarrow> False
             | Some p \<Rightarrow> pdoc_hidden p \<and> \<not> hasPerm (conn_user h) PERM_VIEW_PROBLEM_HIDDEN)
         then (None, h, b, [])
         else (let (html, h') = render co ''record_main_tr.html'' (RowCtx rdoc udoc pdoc) h
               in (None, h', b, [MChangeRow html])))"
| "main_resume co st (MChangeRow html) h b = (None, send (HtmlMsg html) h, b, [])"

definition RecordMainConnectionHandler_cleanup ::
  "RecordMainConnectionHandler \<Rightarrow> Bus \<Rightarrow> Bus" where
  "RecordMainConnectionHandler_cleanup h b = bus_unsubscribe [''record_change''] (conn_id h) b"

subsection \<open>Detail view\<close>

text \<open>
  \<^verbatim>\<open>onRecordChange\<close> with each \<^verbatim>\<open>await\<close> resolved at once.
\<close>

definition RecordDetailConnectionHandler_onRecordChange ::
  "Collab \<Rightarrow> Event \<Rightarrow> RecordDetailConnectionHandler \<Rightarrow> RecordDetailConnectionHandler" where
  "RecordDetailConnectionHandler_onRecordChange co data h =
     (let rdoc = ev_rdoc data in
      if Some (ObjectID_toString (rdoc_id rdoc)) \<noteq> conn_rid h then h
      else
        (case ev_set data of
           Some s \<Rightarrow> send (PatchMsg (Some s) (ev_push data)) h
         | None \<Rightarrow>
             (let (status_html, h1) = render co ''record_detail_status.html'' (DetailCtx rdoc) h;
                  (summary_html, h2) = render co ''record_detail_summary.html'' (DetailCtx rdoc) h1
              in send (SnapshotMsg status_html summary_html) h2)))"

text \<open>
  The pending tasks of a detail session:
  \<^item> \<open>DPrepareRecord domainId rid\<close>: \<^verbatim>\<open>prepare\<close> waits for \<^verbatim>\<open>record.get\<close>;
  \<^item> \<open>DPrepareContest domainId rid rdoc tid\<close>: \<^verbatim>\<open>prepare\<close> waits for \<^verbatim>\<open>contest.get\<close>;
  \<^item> \<open>DChangeStatus rdoc status_html\<close>: \<^verbatim>\<open>onRecordChange\<close> waits for the status render;
  \<^item> \<open>DChangeSummary status_html summary_html\<close>: \<^verbatim>\<open>onRecordChange\<close> waits for the
    summary render, the status render in hand.
\<close>

datatype DetailTask =
    DPrepareRecord string ObjectID
  | DPrepareContest string ObjectID Rdoc ObjectID
  | DChangeStatus Rdoc string
  | DChangeSummary string string

text \<open>
  The part of \<^verbatim>\<open>onRecordChange\<close> before its first \<^verbatim>\<open>await\<close>. An event for another record is
  dropped and a patch is sent in this same run; otherwise the status render is called and
  awaited.
\<close>

definition RecordDetailConnectionHandler_onRecordChange_start ::
  "Collab \<Rightarrow> Event \<Rightarrow> RecordDetailConnectionHandler
     \<Rightarrow> RecordDetailConnectionHandler \<times> DetailTask list" where
  "RecordDetailConnectionHandler_onRecordChange_start co data h =
     (let rdoc = ev_rdoc data in
      if Some (ObjectID_toString (rdoc_id rdoc)) \<noteq> conn_rid h then (h, [])
      else
        (case ev_set data of
           Some s \<Rightarrow> (send (PatchMsg (Some s) (ev_push data)) h, [])
         | None \<Rightarrow>
             (let (status_html, h1) = render co ''record_detail_status.html'' (DetailCtx rdoc) h
              in (h1, [DChangeStatus rdoc status_html]))))"

text \<open>
  \<^verbatim>\<open>prepare\<close> starts with \<^verbatim>\<open>await record.get(domainId, rid)\<close>: nothing happens before the
  first \<^verbatim>\<open>await\<close>.
\<close>

definition RecordDetailConnectionHandler_prepare ::
  "string \<Rightarrow> ObjectID \<Rightarrow> RecordDetailConnectionHandler \<Rightarrow> Bus
     \<Rightarrow> error option \<times> RecordDetailConnectionHandler \<times> Bus \<times> DetailTask list" where
  "RecordDetailConnectionHandler_prepare domainId rid h b =
     (None, h, b, [DPrepareRecord domainId rid])"

text \<open>
  The end of \<^verbatim>\<open>prepare\<close>, once the viewer is authorized: \<^verbatim>\<open>this.rid\<close> is set, the
  subscription is made, and \<^verbatim>\<open>onRecordChange\<close> is called on the fetched record without
  \<^verbatim>\<open>await\<close>, so \<^verbatim>\<open>prepare\<close> ends when that call reaches its first \<^verbatim>\<open>await\<close>.
\<close>

definition RecordDetailConnectionHandler_prepare_authorized ::
  "Collab \<Rightarrow> ObjectID \<Rightarrow> Rdoc \<Rightarrow> RecordDetailConnectionHandler \<Rightarrow> Bus
     \<Rightarrow> error option \<times> RecordDetailConnectionHandler \<times> Bus \<times> DetailTask list" where
  "RecordDetailConnectionHandler_prepare_authorized co rid rdoc h b =
     (let h1 = h\<lparr>conn_rid := Some (ObjectID_toString rid)\<rparr>;
          (h2, b') = subscribe_record_change h1 b;
          (h3, ts) = RecordDetailConnectionHandler_onRecordChange_start co
                       \<lparr>ev_rdoc = rdoc, ev_set = None, ev_push = None\<rparr> h2
      in (None, h3, b', ts))"

text \<open>
  \<^verbatim>\<open>record.get\<close> returns \<^verbatim>\<open>null\<close> for an unknown id, and \<^verbatim>\<open>rdoc.contest\<close> on \<^verbatim>\<open>null\<close> throws a
  \<^verbatim>\<open>TypeError\<close>.
\<close>

fun detail_resume ::
  "Collab \<Rightarrow> Store \<Rightarrow> DetailTask \<Rightarrow> RecordDetailConnectionHandler \<Rightarrow> Bus
     \<Rightarrow> error option \<times> RecordDetailConnectionHandler \<times> Bus \<times> DetailTask list" where
  "detail_resume co st (DPrepareRecord domainId rid) h b =
     (case record_get st domainId rid of
        None \<Rightarrow> (Some TypeError, h, b, [])
      | Some rdoc \<Rightarrow>
          (case rdoc_contest rdoc of
             None \<Rightarrow> RecordDetailConnectionHandler_prepare_authorized co rid rdoc h b
           | Some c \<Rightarrow> (None, h, b, [DPrepareContest domainId rid rdoc (contest_tid c)])))"
| "detail_resume co st (DPrepareContest domainId rid rdoc tid) h b =
     (case contest_get co domainId tid (- 1) of
        Inl e \<Rightarrow> (Some e, h, b, [])
      | Inr tdoc \<Rightarrow>
          if \<not> canShowRecord co (conn_user h) tdoc None then (None, close h, b, [])
          else RecordDetailConnectionHandler_prepare_authorized co rid rdoc h b)"
| "detail_resume co st (DChangeStatus rdoc status_html) h b =
     (let (summary_html, h1) = render co ''record_detail_summary.html'' (DetailCtx rdoc) h
      in (None, h1, b, [DChangeSummary status_html summary_html]))"
| "detail_resume co st (DChangeSummary status_html summary_html) h b =
     (None, send (SnapshotMsg status_html summary_html) h, b, [])"

definition RecordDetailConnectionHandler_cleanup ::
  "RecordDetailConnectionHandler \<Rightarrow> Bus \<Rightarrow> Bus" where
  "RecordDetailConnectionHandler_cleanup h b = bus_unsubscribe [''record_change''] (conn_id h) b"

section \<open>Session lifecycle\<close>

text \<open>
  Modelled from the spec: the connection framework of \<^verbatim>\<open>service/server\<close> and the event
  loop, which are not part of the excerpt. A new handler instance has no field assigned.
  On open the framework calls \<^verbatim>\<open>prepare\<close>. After that, in any order and any number of
  times: the bus publishes an event and invokes the callback of every entry of its table,
  so the session's \<^verbatim>\<open>onRecordChange\<close> runs when an entry under the session's id is there;
  the transport hands a client message to \<^verbatim>\<open>message\<close> while the connection is open; a
  pending task is resumed; the transport closes, which runs \<^verbatim>\<open>cleanup\<close> at once. A handler
  that closes its own connection closes the transport, with the same effect. Which of these
  happens next is the schedule, a list of actions given from outside; \<open>Resume n\<close> resumes
  the pending task at position \<open>n\<close> and does nothing when there is none.
\<close>

definition new_main :: "User \<Rightarrow> RecordMainConnectionHandler" where
  "new_main user =
     \<lparr>conn_user = user, conn_id = None, conn_closed = False, conn_sent = [],
      conn_rendered = [], conn_domainId = None, conn_tid = None\<rparr>"

definition new_detail :: "User \<Rightarrow> RecordDetailConnectionHandler" where
  "new_detail user =
     \<lparr>conn_user = user, conn_id = None, conn_closed = False, conn_sent = [],
      conn_rendered = [], conn_rid = None\<rparr>"

datatype Action = Publish Event | ClientData "string list option" | Resume nat | Close

record ('h, 't) Session =
  sess_handler :: 'h
  sess_bus :: Bus
  sess_tasks :: "'t list"
  sess_errors :: "error list"

fun thrown :: "error option \<Rightarrow> error list" where
  "thrown None = []"
| "thrown (Some e) = [e]"

definition main_open ::
  "Collab \<Rightarrow> User \<Rightarrow> string \<Rightarrow> tid_value option \<Rightarrow> Bus
     \<Rightarrow> (RecordMainConnectionHandler, MainTask) Session" where
  "main_open co user domainId tid b =
     (case RecordMainConnectionHandler_prepare co domainId tid (new_main user) b of
        (err, h, b', ts) \<Rightarrow>
          \<lparr>sess_handler = h, sess_bus = b', sess_tasks = ts, sess_errors = thrown err\<rparr>)"

definition main_step ::
  "Collab \<Rightarrow> Store \<Rightarrow> Action \<Rightarrow> (RecordMainConnectionHandler, MainTask) Session
     \<Rightarrow> (RecordMainConnectionHandler, MainTask) Session" where
  "main_step co st a s =
     (let h = sess_handler s; b = sess_bus s; ts = sess_tasks s in
      case a of
        Publish data \<Rightarrow>
          if bus_subscribed b ''record_change'' (conn_id h)
          then s\<lparr>sess_tasks := ts @ RecordMainConnectionHandler_onRecordChange_start data h\<rparr>
          else s
      | ClientData msg_rids \<Rightarrow>
          if conn_closed h then s
          else (case RecordMainConnectionHandler_message co msg_rids h of
                  (err, new) \<Rightarrow>
                    s\<lparr>sess_tasks := ts @ new, sess_errors := sess_errors s @ thrown err\<rparr>)
      | Resume n \<Rightarrow>
          if n < length ts
          then (case main_resume co st (ts ! n) h b of
                  (err, h', b', new) \<Rightarrow>
                    s\<lparr>sess_handler := h',
                      sess_bus := (if conn_closed h' \<and> \<not> conn_closed h
                                   then RecordMainConnectionHandler_cleanup h' b' else b'),
                      sess_tasks := take n ts @ drop (Suc n) ts @ new,
                      sess_errors := sess_errors s @ thrown err\<rparr>)
          else s
      | Close \<Rightarrow>
          s\<lparr>sess_handler := close h, sess_bus := RecordMainConnectionHandler_cleanup h b\<rparr>)"

definition main_run ::
  "Collab \<Rightarrow> Store \<Rightarrow> Action list \<Rightarrow> (RecordMainConnectionHandler, MainTask) Session
     \<Rightarrow> (RecordMainConnectionHandler, MainTask) Session" where
  "main_run co st schedule s = fold (main_step co st) schedule s"

definition detail_open ::
  "User \<Rightarrow> string \<Rightarrow> ObjectID \<Rightarrow> Bus
     \<Rightarrow> (RecordDetailConnectionHandler, DetailTask) Session" where
  "detail_open user domainId rid b =
     (case RecordDetailConnectionHandler_prepare domainId rid (new_detail user) b of
        (err, h, b', ts) \<Rightarrow>
          \<lparr>sess_handler = h, sess_bus = b', sess_tasks = ts, sess_errors = thrown err\<rparr>)"

text \<open>
  The detail handler has no \<^verbatim>\<open>message\<close> method: client messages are ignored.
\<close>

definition detail_step ::
  "Collab \<Rightarrow> Store \<Rightarrow> Action \<Rightarrow> (RecordDetailConnectionHandler, DetailTask) Session
     \<Rightarrow> (RecordDetailConnectionHandler, DetailTask) Session" where
  "detail_step co st a s =
     (let h = sess_handler s; b = sess_bus s; ts = sess_tasks s in
      case a of
        Publish data \<Rightarrow>
          if bus_subscribed b ''record_change'' (conn_id h)
          then (case RecordDetailConnectionHandler_onRecordChange_start co data h of
                  (h', new) \<Rightarrow> s\<lparr>sess_handler := h', sess_tasks := ts @ new\<rparr>)
          else s
      | ClientData msg_rids \<Rightarrow> s
      | Resume n \<Rightarrow>
          if n < length ts
          then (case detail_resume co st (ts ! n) h b of
                  (err, h', b', new) \<Rightarrow>
                    s\<lparr>sess_handler := h',
                      sess_bus := (if conn_closed h' \<and> \<not> conn_closed h
                                   then RecordDetailConnectionHandler_cleanup h' b' else b'),
                      sess_tasks := take n ts @ drop (Suc n) ts @ new,
                      sess_errors := sess_errors s @ thrown err\<rparr>)
          else s
      | Close \<Rightarrow>
          s\<lparr>sess_handler := close h, sess_bus := RecordDetailConnectionHandler_cleanup h b\<rparr>)"

definition detail_run ::
  "Collab \<Rightarrow> Store \<Rightarrow> Action list \<Rightarrow> (RecordDetailConnectionHandler, DetailTask) Session
     \<Rightarrow> (RecordDetailConnectionHandler, DetailTask) Session" where
  "detail_run co st schedule s = fold (detail_step co st) schedule s"

section \<open>Example data\<close>

text \<open>
  A small deployment used to run the handlers on concrete inputs: four records of one
  owner (user 1) in the domain \<^verbatim>\<open>system\<close>, one of them on a hidden problem and one in a
  contest, a viewer (user 2) with no permission and an administrator (user 3).
\<close>

definition ex_viewer :: User where
  "ex_viewer = \<lparr>user_uid = 2, user_perms = []\<rparr>"

definition ex_admin :: User where
  "ex_admin = \<lparr>user_uid = 3,
                user_perms = [PERM_VIEW_PROBLEM_HIDDEN, PERM_READ_RECORD_CODE, PERM_REJUDGE]\<rparr>"

definition ex_T1 :: ObjectID where
  "ex_T1 = ''5f00000000000000000000c1''"

definition ex_R1 :: Rdoc where
  "ex_R1 = \<lparr>rdoc_domainId = ''system'', rdoc_id = ''5f0000000000000000000001'', rdoc_uid = 1,
            rdoc_pid = ''P1'', rdoc_contest = None, rdoc_hidden = False, rdoc_status = 1,
            rdoc_score = 100, rdoc_rejudged = False, rdoc_code = Some ''int main(){}''\<rparr>"

definition ex_R2 :: Rdoc where
  "ex_R2 = \<lparr>rdoc_domainId = ''system'', rdoc_id = ''5f0000000000000000000002'', rdoc_uid = 1,
            rdoc_pid = ''P1'', rdoc_contest = None, rdoc_hidden = False, rdoc_status = 0,
            rdoc_score = 0, rdoc_rejudged = False, rdoc_code = Some ''print(42)''\<rparr>"

definition ex_R3 :: Rdoc where
  "ex_R3 = \<lparr>rdoc_domainId = ''system'', rdoc_id = ''5f0000000000000000000003'', rdoc_uid = 1,
            rdoc_pid = ''PH'', rdoc_contest = None, rdoc_hidden = False, rdoc_status = 1,
            rdoc_score = 100, rdoc_rejudged = False, rdoc_code = Some ''x''\<rparr>"

definition ex_R4 :: Rdoc where
  "ex_R4 = \<lparr>rdoc_domainId = ''system'', rdoc_id = ''5f0000000000000000000004'', rdoc_uid = 1,
            rdoc_pid = ''P1'',
            rdoc_contest = Some \<lparr>contest_type = 1, contest_tid = ''5f00000000000000000000c1''\<rparr>,
            rdoc_hidden = False, rdoc_status = 1, rdoc_score = 100, rdoc_rejudged = False,
            rdoc_code = Some ''y''\<rparr>"

definition ex_store :: Store where
  "ex_store = \<lparr>records = [ex_R1, ex_R2, ex_R3, ex_R4], judge_queue = []\<rparr>"

definition ex_collab :: Collab where
  "ex_collab =
     \<lparr>user_getById = (\<lambda>d uid. Some \<lparr>udoc_id = uid, udoc_uname = ''user''\<rparr>),
      problem_get = (\<lambda>d pid.
         if pid = ''P1'' then Some \<lparr>pdoc_pid = ''P1'', pdoc_title = ''A+B'', pdoc_hidden = False\<rparr>
         else if pid = ''PH'' then Some \<lparr>pdoc_pid = ''PH'', pdoc_title = ''Secret'', pdoc_hidden = True\<rparr>
         else None),
      contest_get = (\<lambda>d tid ty. Inr \<lparr>tdoc_docId = tid, tdoc_rule = ''acm''\<rparr>),
      canShowRecord = (\<lambda>u tdoc override. True),
      renderHTML = (\<lambda>name ctx. name @ ''#'' @ rdoc_id (ctx_rdoc ctx)),
      new_ObjectID = Some\<rparr>"

definition ex_bus :: Bus where
  "ex_bus = \<lparr>bus_hooks = [], bus_next = 0\<rparr>"

definition ex_event :: "Rdoc \<Rightarrow> Event" where
  "ex_event rdoc = \<lparr>ev_rdoc = rdoc, ev_set = None, ev_push = None\<rparr>"

section \<open>Theorems\<close>

subsection \<open>One call and its steps\<close>

text \<open>
  Resuming the tasks of one \<^verbatim>\<open>onRecordChange\<close> call one after the other, with nothing in
  between, gives the result of the call run at once.
\<close>

lemma detail_onRecordChange_steps:
  assumes "RecordDetailConnectionHandler_onRecordChange_start co data h = (h1, ts)"
  shows "(ts = [] \<and> RecordDetailConnectionHandler_onRecordChange co data h = h1)
       \<or> (\<exists>t1 h2 t2. ts = [t1]
             \<and> detail_resume co st t1 h1 b = (None, h2, b, [t2])
             \<and> detail_resume co st t2 h2 b =
                 (None, RecordDetailConnectionHandler_onRecordChange co data h, b, []))"
  using assms
  by (auto simp: RecordDetailConnectionHandler_onRecordChange_start_def
      RecordDetailConnectionHandler_onRecordChange_def Let_def render_def send_def
      split: option.splits if_splits)

lemma main_onRecordChange_steps:
  "(RecordMainConnectionHandler_onRecordChange_start data h = []
      \<and> RecordMainConnectionHandler_onRecordChange co data h = h)
   \<or> (\<exists>t1. RecordMainConnectionHandler_onRecordChange_start data h = [t1]
         \<and> (main_resume co st t1 h b = (None, h, b, [])
              \<and> RecordMainConnectionHandler_onRecordChange co data h = h
            \<or> (\<exists>h2 t2. main_resume co st t1 h b = (None, h2, b, [t2])
                  \<and> main_resume co st t2 h2 b =
                      (None, RecordMainConnectionHandler_onRecordChange co data h, b, []))))"
  by (auto simp: RecordMainConnectionHandler_onRecordChange_start_def
      RecordMainConnectionHandler_onRecordChange_def Let_def render_def send_def
      split: option.splits if_splits)

subsection \<open>Evaluating the example\<close>

lemmas run_defs = main_run_def main_step_def main_open_def detail_run_def detail_step_def
  detail_open_def RecordMainConnectionHandler_prepare_def RecordMainConnectionHandler_message_def
  RecordMainConnectionHandler_onRecordChange_start_def RecordMainConnectionHandler_cleanup_def
  RecordDetailConnectionHandler_prepare_def RecordDetailConnectionHandler_prepare_authorized_def
  RecordDetailConnectionHandler_onRecordChange_start_def RecordDetailConnectionHandler_cleanup_def
  subscribe_record_change_def bus_subscribe_def bus_subscribed_def bus_unsubscribe_def
  render_def send_def close_def new_main_def new_detail_def Let_def ObjectID_toString_def

lemma ex_records:
  "record_get ex_store ''system'' ''5f0000000000000000000001'' = Some ex_R1"
  "record_get ex_store ''system'' ''5f0000000000000000000002'' = Some ex_R2"
  "record_get ex_store ''system'' ''5f0000000000000000000003'' = Some ex_R3"
  "record_get ex_store ''system'' ''5f0000000000000000000004'' = Some ex_R4"
  "record_get ex_store ''system'' ''5f00000000000000000000ff'' = None"
  by (simp_all add: record_get_def ex_store_def ex_R1_def ex_R2_def ex_R3_def ex_R4_def)

lemma ex_fields:
  "rdoc_contest ex_R1 = None" "rdoc_pid ex_R1 = ''P1''" "rdoc_uid ex_R1 = 1"
  "rdoc_id ex_R1 = ''5f0000000000000000000001''"
  "rdoc_contest ex_R2 = None" "rdoc_pid ex_R2 = ''P1''" "rdoc_uid ex_R2 = 1"
  "rdoc_id ex_R2 = ''5f0000000000000000000002''" "rdoc_code ex_R2 = Some ''print(42)''"
  "rdoc_contest ex_R3 = None" "rdoc_pid ex_R3 = ''PH''" "rdoc_uid ex_R3 = 1"
  "rdoc_id ex_R3 = ''5f0000000000000000000003''"
  "rdoc_pid ex_R4 = ''P1''" "rdoc_uid ex_R4 = 1" "rdoc_id ex_R4 = ''5f0000000000000000000004''"
  "rdoc_contest ex_R4 = Some \<lparr>contest_type = 1, contest_tid = ''5f00000000000000000000c1''\<rparr>"
  "user_uid ex_viewer = 2" "hasPerm ex_viewer PERM_VIEW_PROBLEM_HIDDEN = False"
  "hasPerm ex_viewer PERM_READ_RECORD_CODE = False"
  by (simp_all add: ex_R1_def ex_R2_def ex_R3_def ex_R4_def ex_viewer_def hasPerm_def)

subsection \<open>The subscription table over a session\<close>

text \<open>
  Whatever the table holds when the session closes, \<^verbatim>\<open>cleanup\<close> removes the entry of
  the session's id under \<^verbatim>\<open>record_change\<close>.
\<close>

lemma cleanup_removes_entry:
  "\<not> bus_subscribed (RecordMainConnectionHandler_cleanup h b) ''record_change'' (conn_id h)"
  "\<not> bus_subscribed (RecordDetailConnectionHandler_cleanup h' b) ''record_change'' (conn_id h')"
  by (auto simp: RecordMainConnectionHandler_cleanup_def RecordDetailConnectionHandler_cleanup_def
      bus_unsubscribe_def bus_subscribed_def split: option.splits)

text \<open>
  When the connection closes while no \<^verbatim>\<open>prepare\<close> is pending, the session's id has no
  entry in the table after the close, whatever is scheduled later.
\<close>

lemma main_closed_after_open_step:
  assumes "list_all (\<lambda>t. case t of MPrepareContest domainId t oid \<Rightarrow> False | MMessageRecords domainId rids \<Rightarrow> True
                | MChangeDocs rdoc domainId \<Rightarrow> True | MChangeRow html \<Rightarrow> True) (sess_tasks s)
         \<and> \<not> bus_subscribed (sess_bus s) ''record_change'' (conn_id (sess_handler s))"
  shows "list_all (\<lambda>t. case t of MPrepareContest domainId t oid \<Rightarrow> False | MMessageRecords domainId rids \<Rightarrow> True
                | MChangeDocs rdoc domainId \<Rightarrow> True | MChangeRow html \<Rightarrow> True)
           (sess_tasks (main_step co st a s))
       \<and> \<not> bus_subscribed (sess_bus (main_step co st a s)) ''record_change''
             (conn_id (sess_handler (main_step co st a s)))"
proof (cases a)
  case (Publish data)
  with assms show ?thesis by (simp add: main_step_def Let_def)
next
  case (ClientData m)
  with assms show ?thesis
    by (auto simp: main_step_def Let_def RecordMainConnectionHandler_message_def
        split: option.splits sum.splits)
next
  case (Resume n)
  show ?thesis
  proof (cases "n < length (sess_tasks s)")
    case False
    with Resume assms show ?thesis by (simp add: main_step_def Let_def)
  next
    case True
    let ?ok = "\<lambda>t. case t of MPrepareContest domainId t oid \<Rightarrow> False | MMessageRecords domainId rids \<Rightarrow> True
                | MChangeDocs rdoc domainId \<Rightarrow> True | MChangeRow html \<Rightarrow> True"
    have tn: "?ok (sess_tasks s ! n)"
      using assms True by (simp add: list_all_length)
    have old: "list_all ?ok (take n (sess_tasks s))" "list_all ?ok (drop (Suc n) (sess_tasks s))"
      using assms by (auto simp: list_all_iff dest: in_set_takeD in_set_dropD)
    obtain e h' b' new where
      p: "main_resume co st (sess_tasks s ! n) (sess_handler s) (sess_bus s) = (e, h', b', new)"
      by (metis prod_cases4)
    have r: "conn_id h' = conn_id (sess_handler s) \<and> b' = sess_bus s
           \<and> conn_closed h' = conn_closed (sess_handler s) \<and> list_all ?ok new"
    proof (cases "sess_tasks s ! n")
      case (MPrepareContest x1 x2 x3)
      with tn show ?thesis by simp
    next
      case (MMessageRecords domainId rids)
      have "list_all ?ok (concat (map (\<lambda>rdoc. RecordMainConnectionHandler_onRecordChange_start (f rdoc) h) rs))"
        for f h rs
        by (induction rs) (simp_all add: RecordMainConnectionHandler_onRecordChange_start_def Let_def)
      with MMessageRecords p show ?thesis by auto
    next
      case (MChangeDocs rdoc domainId)
      with p show ?thesis by (auto simp: Let_def render_def split: if_splits)
    next
      case (MChangeRow html)
      with p show ?thesis by (auto simp: send_def)
    qed
    from Resume True show ?thesis
      using r old assms by (simp add: main_step_def Let_def p)
  qed
next
  case Close
  with assms show ?thesis
    using cleanup_removes_entry(1) [of "sess_handler s" "sess_bus s"]
    by (simp add: main_step_def Let_def close_def)
qed

lemma main_closed_after_open_unsubscribed:
  assumes "list_all (\<lambda>t. case t of MPrepareContest domainId t oid \<Rightarrow> False | MMessageRecords domainId rids \<Rightarrow> True
                | MChangeDocs rdoc domainId \<Rightarrow> True | MChangeRow html \<Rightarrow> True) (sess_tasks s)"
  shows "\<not> bus_subscribed (sess_bus (main_run co st schedule (main_step co st Close s)))
            ''record_change''
            (conn_id (sess_handler (main_run co st schedule (main_step co st Close s))))"
proof -
  let ?ok = "\<lambda>t. case t of MPrepareContest domainId t oid \<Rightarrow> False | MMessageRecords domainId rids \<Rightarrow> True
                | MChangeDocs rdoc domainId \<Rightarrow> True | MChangeRow html \<Rightarrow> True"
  let ?J = "\<lambda>s :: (RecordMainConnectionHandler, MainTask) Session.
              list_all ?ok (sess_tasks s)
              \<and> \<not> bus_subscribed (sess_bus s) ''record_change'' (conn_id (sess_handler s))"
  have run: "?J s' \<Longrightarrow> ?J (main_run co st schedule s')" for s'
  proof (induction schedule arbitrary: s')
    case Nil
    then show ?case by (simp add: main_run_def)
  next
    case (Cons a rest)
    from main_closed_after_open_step [OF Cons.prems] have "?J (main_step co st a s')" .
    from Cons.IH [OF this] show ?case by (simp add: main_run_def)
  qed
  have "?J (main_step co st Close s)"
    using assms cleanup_removes_entry(1) [of "sess_handler s" "sess_bus s"]
    by (simp add: main_step_def Let_def close_def)
  from run [OF this] show ?thesis by simp
qed

lemma detail_closed_after_open_step:
  assumes "list_all (\<lambda>t. case t of DPrepareRecord domainId rid \<Rightarrow> False
                | DPrepareContest domainId rid rdoc tid \<Rightarrow> False
                | DChangeStatus rdoc status_html \<Rightarrow> True
                | DChangeSummary status_html summary_html \<Rightarrow> True) (sess_tasks s)
         \<and> \<not> bus_subscribed (sess_bus s) ''record_change'' (conn_id (sess_handler s))"
  shows "list_all (\<lambda>t. case t of DPrepareRecord domainId rid \<Rightarrow> False
                | DPrepareContest domainId rid rdoc tid \<Rightarrow> False
                | DChangeStatus rdoc status_html \<Rightarrow> True
                | DChangeSummary status_html summary_html \<Rightarrow> True)
           (sess_tasks (detail_step co st a s))
       \<and> \<not> bus_subscribed (sess_bus (detail_step co st a s)) ''record_change''
             (conn_id (sess_handler (detail_step co st a s)))"
proof (cases a)
  case (Publish data)
  with assms show ?thesis by (simp add: detail_step_def Let_def)
next
  case (ClientData m)
  with assms show ?thesis by (simp add: detail_step_def Let_def)
next
  case (Resume n)
  show ?thesis
  proof (cases "n < length (sess_tasks s)")
    case False
    with Resume assms show ?thesis by (simp add: detail_step_def Let_def)
  next
    case True
    let ?ok = "\<lambda>t. case t of DPrepareRecord domainId rid \<Rightarrow> False
                | DPrepareContest domainId rid rdoc tid \<Rightarrow> False
                | DChangeStatus rdoc status_html \<Rightarrow> True
                | DChangeSummary status_html summary_html \<Rightarrow> True"
    have tn: "?ok (sess_tasks s ! n)"
      using assms True by (simp add: list_all_length)
    have old: "list_all ?ok (take n (sess_tasks s))" "list_all ?ok (drop (Suc n) (sess_tasks s))"
      using assms by (auto simp: list_all_iff dest: in_set_takeD in_set_dropD)
    obtain e h' b' new where
      p: "detail_resume co st (sess_tasks s ! n) (sess_handler s) (sess_bus s) = (e, h', b', new)"
      by (metis prod_cases4)
    have r: "conn_id h' = conn_id (sess_handler s) \<and> b' = sess_bus s
           \<and> conn_closed h' = conn_closed (sess_handler s) \<and> list_all ?ok new"
      using tn p
      by (cases "sess_tasks s ! n") (auto simp: Let_def render_def send_def)
    from Resume True show ?thesis
      using r old assms by (simp add: detail_step_def Let_def p)
  qed
next
  case Close
  with assms show ?thesis
    using cleanup_removes_entry(2) [of "sess_handler s" "sess_bus s"]
    by (simp add: detail_step_def Let_def close_def)
qed

lemma detail_closed_after_open_unsubscribed:
  assumes "list_all (\<lambda>t. case t of DPrepareRecord domainId rid \<Rightarrow> False
                | DPrepareContest domainId rid rdoc tid \<Rightarrow> False
                | DChangeStatus rdoc status_html \<Rightarrow> True
                | DChangeSummary status_html summary_html \<Rightarrow> True) (sess_tasks s)"
  shows "\<not> bus_subscribed (sess_bus (detail_run co st schedule (detail_step co st Close s)))
            ''record_change''
            (conn_id (sess_handler (detail_run co st schedule (detail_step co st Close s))))"
proof -
  let ?ok = "\<lambda>t. case t of DPrepareRecord domainId rid \<Rightarrow> False
                | DPrepareContest domainId rid rdoc tid \<Rightarrow> False
                | DChangeStatus rdoc status_html \<Rightarrow> True
                | DChangeSummary status_html summary_html \<Rightarrow> True"
  let ?J = "\<lambda>s :: (RecordDetailConnectionHandler, DetailTask) Session.
              list_all ?ok (sess_tasks s)
              \<and> \<not> bus_subscribed (sess_bus s) ''record_change'' (conn_id (sess_handler s))"
  have run: "?J s' \<Longrightarrow> ?J (detail_run co st schedule s')" for s'
  proof (induction schedule arbitrary: s')
    case Nil
    then show ?case by (simp add: detail_run_def)
  next
    case (Cons a rest)
    from detail_closed_after_open_step [OF Cons.prems] have "?J (detail_step co st a s')" .
    from Cons.IH [OF this] show ?case by (simp add: detail_run_def)
  qed
  have "?J (detail_step co st Close s)"
    using assms cleanup_removes_entry(2) [of "sess_handler s" "sess_bus s"]
    by (simp add: detail_step_def Let_def close_def)
  from run [OF this] show ?thesis by simp
qed

text \<open>
  C1. The claim asks that after a session has reached the closed state the subscription
  table holds no entry under its subscriber id. Both \<^verbatim>\<open>prepare\<close> methods subscribe after an
  \<^verbatim>\<open>await\<close> and do not look at the connection again. When the list session filtered to
  \<open>ex_T1\<close> is closed while \<^verbatim>\<open>prepare\<close> waits for \<^verbatim>\<open>contest.get\<close>, \<^verbatim>\<open>cleanup\<close> runs with no id
  assigned and removes nothing; \<^verbatim>\<open>prepare\<close> then resumes and subscribes. The session is
  closed, its entry stays in the table, and it goes on handling the events published
  later. The same happens to the detail session closed while \<^verbatim>\<open>prepare\<close> waits for
  \<^verbatim>\<open>record.get\<close>. The list session without a filter subscribes before any \<^verbatim>\<open>await\<close> and is
  cleaned up.
\<close>

theorem subscription_left_by_close_during_open:
  "sess_tasks (main_open ex_collab ex_viewer ''system'' (Some (TidString ex_T1)) ex_bus) =
     [MPrepareContest ''system'' (TidString ex_T1) ex_T1]
   \<and> main_run ex_collab ex_store [Close, Resume 0]
       (main_open ex_collab ex_viewer ''system'' (Some (TidString ex_T1)) ex_bus) =
     \<lparr>sess_handler = (new_main ex_viewer)
         \<lparr>conn_id := Some 0, conn_closed := True, conn_domainId := Some ''system'',
          conn_tid := Some (TidString ex_T1)\<rparr>,
      sess_bus = \<lparr>bus_hooks = [(''record_change'', 0)], bus_next = 1\<rparr>,
      sess_tasks = [], sess_errors = []\<rparr>
   \<and> conn_sent (sess_handler (main_run ex_collab ex_store
        [Close, Resume 0, Publish (ex_event ex_R4), Resume 0, Resume 0]
        (main_open ex_collab ex_viewer ''system'' (Some (TidString ex_T1)) ex_bus))) =
     [HtmlMsg ''record_main_tr.html#5f0000000000000000000004'']
   \<and> sess_tasks (detail_open ex_viewer ''system'' ''5f0000000000000000000002'' ex_bus) =
     [DPrepareRecord ''system'' ''5f0000000000000000000002'']
   \<and> main_run ex_collab ex_store [Close] (main_open ex_collab ex_viewer ''system'' None ex_bus) =
     \<lparr>sess_handler = (new_main ex_viewer)
         \<lparr>conn_id := Some 0, conn_closed := True, conn_domainId := Some ''system''\<rparr>,
      sess_bus = \<lparr>bus_hooks = [], bus_next = 1\<rparr>,
      sess_tasks = [], sess_errors = []\<rparr>
   \<and> detail_run ex_collab ex_store [Close, Resume 0]
       (detail_open ex_viewer ''system'' ''5f0000000000000000000002'' ex_bus) =
     \<lparr>sess_handler = (new_detail ex_viewer)
         \<lparr>conn_id := Some 0, conn_closed := True,
          conn_rendered := [(''record_detail_status.html'', DetailCtx ex_R2)],
          conn_rid := Some ''5f0000000000000000000002''\<rparr>,
      sess_bus = \<lparr>bus_hooks = [(''record_change'', 0)], bus_next = 1\<rparr>,
      sess_tasks = [DChangeStatus ex_R2 ''record_detail_status.html#5f0000000000000000000002''],
      sess_errors = []\<rparr>"
  by (simp add: run_defs ex_records ex_fields ex_collab_def ex_bus_def ex_T1_def ex_event_def)

subsection \<open>The detail session\<close>

lemma detail_onRecordChange_match:
  assumes "conn_rid h = Some (ObjectID_toString (rdoc_id (ev_rdoc data)))"
  shows "RecordDetailConnectionHandler_onRecordChange co data h =
     (case ev_set data of
        Some s \<Rightarrow> h\<lparr>conn_sent := conn_sent h @ [PatchMsg (Some s) (ev_push data)]\<rparr>
      | None \<Rightarrow>
          h\<lparr>conn_sent := conn_sent h @
               [SnapshotMsg (renderHTML co ''record_detail_status.html'' (DetailCtx (ev_rdoc data)))
                            (renderHTML co ''record_detail_summary.html'' (DetailCtx (ev_rdoc data)))],
            conn_rendered := conn_rendered h @
               [(''record_detail_status.html'', DetailCtx (ev_rdoc data)),
                (''record_detail_summary.html'', DetailCtx (ev_rdoc data))]\<rparr>)"
  using assms
  by (simp add: RecordDetailConnectionHandler_onRecordChange_def Let_def render_def send_def
      split: option.splits)

text \<open>
  With no event published in between, an authorized detail session has sent nothing when
  \<^verbatim>\<open>prepare\<close> ends and exactly the snapshot once the two renders are done.
\<close>

lemma detail_snapshot_when_undisturbed:
  assumes "record_get st d rid = Some rdoc" and "rdoc_contest rdoc = None"
  shows "conn_sent (sess_handler (detail_run co st [Resume 0] (detail_open user d rid b))) = []
       \<and> conn_sent (sess_handler (detail_run co st [Resume 0, Resume 0, Resume 0]
            (detail_open user d rid b))) =
           [SnapshotMsg (renderHTML co ''record_detail_status.html'' (DetailCtx rdoc))
                        (renderHTML co ''record_detail_summary.html'' (DetailCtx rdoc))]"
proof -
  have "rdoc_id rdoc = rid"
    using assms(1) by (auto simp: record_get_def find_Some_iff)
  with assms show ?thesis
    by (simp add: run_defs)
qed

text \<open>
  C4. The claim asks that the initial snapshot is sent before any message derived from a
  live bus event. \<^verbatim>\<open>prepare\<close> calls \<^verbatim>\<open>onRecordChange\<close> on the fetched record without
  \<^verbatim>\<open>await\<close>, and that call sends only after its two awaited renders: when \<^verbatim>\<open>prepare\<close> ends
  the session is subscribed, nothing is sent and the status render is pending. An event
  with \<^verbatim>\<open>$set\<close> published at that point is sent in the same run, so the client of the
  session for \<open>ex_R2\<close> gets the patch first and the snapshot second. With no event in
  between the snapshot is the one message sent.
\<close>

theorem detail_patch_before_initial_snapshot:
  "detail_run ex_collab ex_store [Resume 0]
       (detail_open ex_viewer ''system'' ''5f0000000000000000000002'' ex_bus) =
     \<lparr>sess_handler = (new_detail ex_viewer)
         \<lparr>conn_id := Some 0,
          conn_rendered := [(''record_detail_status.html'', DetailCtx ex_R2)],
          conn_rid := Some ''5f0000000000000000000002''\<rparr>,
      sess_bus = \<lparr>bus_hooks = [(''record_change'', 0)], bus_next = 1\<rparr>,
      sess_tasks = [DChangeStatus ex_R2 ''record_detail_status.html#5f0000000000000000000002''],
      sess_errors = []\<rparr>
   \<and> conn_sent (sess_handler (detail_run ex_collab ex_store
        [Resume 0,
         Publish \<lparr>ev_rdoc = ex_R2, ev_set = Some [(''status'', ''AC'')], ev_push = Some []\<rparr>,
         Resume 0, Resume 0]
        (detail_open ex_viewer ''system'' ''5f0000000000000000000002'' ex_bus))) =
     [PatchMsg (Some [(''status'', ''AC'')]) (Some []),
      SnapshotMsg ''record_detail_status.html#5f0000000000000000000002''
                  ''record_detail_summary.html#5f0000000000000000000002'']
   \<and> conn_sent (sess_handler (detail_run ex_collab ex_store [Resume 0, Resume 0, Resume 0]
        (detail_open ex_viewer ''system'' ''5f0000000000000000000002'' ex_bus))) =
     [SnapshotMsg ''record_detail_status.html#5f0000000000000000000002''
                  ''record_detail_summary.html#5f0000000000000000000002'']"
  by (simp add: run_defs ex_records ex_fields ex_collab_def ex_bus_def)

text \<open>
  C5. On a bus event for the session's target record, a detail session that finds a field
  delta (both \<^verbatim>\<open>$set\<close> and \<^verbatim>\<open>$push\<close>) sends exactly one message, the patch made of that
  delta, and renders nothing; on an event with no delta it renders the status view and
  the summary view, in this order, and sends both in one message.
\<close>

theorem detail_delta_patch_else_render:
  assumes "conn_rid h = Some (ObjectID_toString (rdoc_id (ev_rdoc data)))"
  shows "(\<forall>s p. ev_set data = Some s \<and> ev_push data = Some p \<longrightarrow>
            RecordDetailConnectionHandler_onRecordChange co data h =
              h\<lparr>conn_sent := conn_sent h @ [PatchMsg (Some s) (Some p)]\<rparr>)
       \<and> (ev_set data = None \<and> ev_push data = None \<longrightarrow>
            RecordDetailConnectionHandler_onRecordChange co data h =
              h\<lparr>conn_sent := conn_sent h @
                   [SnapshotMsg
                      (renderHTML co ''record_detail_status.html'' (DetailCtx (ev_rdoc data)))
                      (renderHTML co ''record_detail_summary.html'' (DetailCtx (ev_rdoc data)))],
                conn_rendered := conn_rendered h @
                   [(''record_detail_status.html'', DetailCtx (ev_rdoc data)),
                    (''record_detail_summary.html'', DetailCtx (ev_rdoc data))]\<rparr>)"
  by (simp add: detail_onRecordChange_match [OF assms])

theorem detail_delta_patch_else_render_witness:
  "RecordDetailConnectionHandler_onRecordChange ex_collab
     \<lparr>ev_rdoc = ex_R2, ev_set = Some [(''status'', ''AC'')], ev_push = Some []\<rparr>
     ((new_detail ex_viewer)\<lparr>conn_rid := Some ''5f0000000000000000000002''\<rparr>) =
     (new_detail ex_viewer)
       \<lparr>conn_rid := Some ''5f0000000000000000000002'',
        conn_sent := [PatchMsg (Some [(''status'', ''AC'')]) (Some [])]\<rparr>
   \<and> conn_sent (RecordDetailConnectionHandler_onRecordChange ex_collab (ex_event ex_R2)
        ((new_detail ex_viewer)\<lparr>conn_rid := Some ''5f0000000000000000000002''\<rparr>)) =
       [SnapshotMsg ''record_detail_status.html#5f0000000000000000000002''
                    ''record_detail_summary.html#5f0000000000000000000002'']"
proof -
  let ?h = "(new_detail ex_viewer)\<lparr>conn_rid := Some ''5f0000000000000000000002''\<rparr>"
  have m1: "conn_rid ?h = Some (ObjectID_toString (rdoc_id (ev_rdoc
              \<lparr>ev_rdoc = ex_R2, ev_set = Some [(''status'', ''AC'')], ev_push = Some []\<rparr>)))"
    and m2: "conn_rid ?h = Some (ObjectID_toString (rdoc_id (ev_rdoc (ex_event ex_R2))))"
    by (simp_all add: ObjectID_toString_def ex_R2_def ex_event_def)
  from detail_delta_patch_else_render [OF m1, of ex_collab]
       detail_delta_patch_else_render [OF m2, of ex_collab]
  show ?thesis
    by (simp add: ex_event_def new_detail_def ex_collab_def ex_R2_def)
qed

text \<open>
  C10. In the detail connection's event handler the choice between the patch and the full
  re-render depends on \<^verbatim>\<open>$set\<close> alone. An event for the target record without \<^verbatim>\<open>$set\<close> is
  answered by the two renders and the snapshot message whatever \<^verbatim>\<open>$push\<close> is, also when
  only \<^verbatim>\<open>$push\<close> is present; an event with \<^verbatim>\<open>$set\<close> is answered by the patch that carries
  \<^verbatim>\<open>$push\<close> as it came, also when it is absent.
\<close>

theorem detail_choice_by_set_only:
  assumes "conn_rid h = Some (ObjectID_toString (rdoc_id rdoc))"
  shows "RecordDetailConnectionHandler_onRecordChange co
           \<lparr>ev_rdoc = rdoc, ev_set = None, ev_push = push\<rparr> h =
           h\<lparr>conn_sent := conn_sent h @
                [SnapshotMsg (renderHTML co ''record_detail_status.html'' (DetailCtx rdoc))
                             (renderHTML co ''record_detail_summary.html'' (DetailCtx rdoc))],
             conn_rendered := conn_rendered h @
                [(''record_detail_status.html'', DetailCtx rdoc),
                 (''record_detail_summary.html'', DetailCtx rdoc)]\<rparr>
       \<and> RecordDetailConnectionHandler_onRecordChange co
           \<lparr>ev_rdoc = rdoc, ev_set = Some s, ev_push = push\<rparr> h =
           h\<lparr>conn_sent := conn_sent h @ [PatchMsg (Some s) push]\<rparr>"
  using assms by (simp add: detail_onRecordChange_match)

theorem detail_choice_by_set_only_witness:
  "RecordDetailConnectionHandler_onRecordChange ex_collab
     \<lparr>ev_rdoc = ex_R2, ev_set = None, ev_push = Some [(''cases'', ''1'')]\<rparr>
     ((new_detail ex_viewer)\<lparr>conn_rid := Some ''5f0000000000000000000002''\<rparr>) =
     (new_detail ex_viewer)
       \<lparr>conn_rid := Some ''5f0000000000000000000002'',
        conn_sent := [SnapshotMsg ''record_detail_status.html#5f0000000000000000000002''
                                  ''record_detail_summary.html#5f0000000000000000000002''],
        conn_rendered := [(''record_detail_status.html'', DetailCtx ex_R2),
                          (''record_detail_summary.html'', DetailCtx ex_R2)]\<rparr>
   \<and> RecordDetailConnectionHandler_onRecordChange ex_collab
     \<lparr>ev_rdoc = ex_R2, ev_set = Some [(''status'', ''AC'')], ev_push = None\<rparr>
     ((new_detail ex_viewer)\<lparr>conn_rid := Some ''5f0000000000000000000002''\<rparr>) =
     (new_detail ex_viewer)
       \<lparr>conn_rid := Some ''5f0000000000000000000002'',
        conn_sent := [PatchMsg (Some [(''status'', ''AC'')]) None]\<rparr>"
proof -
  let ?h = "(new_detail ex_viewer)\<lparr>conn_rid := Some ''5f0000000000000000000002''\<rparr>"
  have m: "conn_rid ?h = Some (ObjectID_toString (rdoc_id ex_R2))"
    by (simp add: ObjectID_toString_def ex_R2_def)
  from detail_choice_by_set_only [OF m, of ex_collab "Some [(''cases'', ''1'')]"]
       detail_choice_by_set_only [OF m, of ex_collab None "[(''status'', ''AC'')]"]
  show ?thesis
    by (simp add: new_detail_def ex_collab_def ex_R2_def)
qed

subsection \<open>The list session\<close>

lemma main_onRecordChange_char:
  "RecordMainConnectionHandler_onRecordChange co data h =
     (if (case rdoc_contest (ev_rdoc data) of
            None \<Rightarrow> False
          | Some c \<Rightarrow> strict_neq (ObjectID_toString (contest_tid c)) (conn_tid h))
         \<or> (case problem_get co (conn_domainId h) (rdoc_pid (ev_rdoc data)) of
               None \<Rightarrow> False
             | Some p \<Rightarrow> pdoc_hidden p \<and> \<not> hasPerm (conn_user h) PERM_VIEW_PROBLEM_HIDDEN)
      then h
      else h\<lparr>conn_sent := conn_sent h @
                [HtmlMsg (renderHTML co ''record_main_tr.html''
                   (RowCtx (ev_rdoc data)
                      (user_getById co (conn_domainId h) (rdoc_uid (ev_rdoc data)))
                      (problem_get co (conn_domainId h) (rdoc_pid (ev_rdoc data)))))],
             conn_rendered := conn_rendered h @
                [(''record_main_tr.html'',
                  RowCtx (ev_rdoc data)
                    (user_getById co (conn_domainId h) (rdoc_uid (ev_rdoc data)))
                    (problem_get co (conn_domainId h) (rdoc_pid (ev_rdoc data))))]\<rparr>)"
  by (simp add: RecordMainConnectionHandler_onRecordChange_def Let_def render_def send_def)

text \<open>
  A property of the handler and of the pending tasks that every step keeps holds after
  every schedule.
\<close>

lemma main_step_inv:
  fixes H :: "RecordMainConnectionHandler \<Rightarrow> bool"
    and T :: "RecordMainConnectionHandler \<Rightarrow> MainTask \<Rightarrow> bool"
  assumes start: "\<And>data h. H h \<Longrightarrow>
        list_all (T h) (RecordMainConnectionHandler_onRecordChange_start data h)"
    and msg: "\<And>m h e ts. H h \<Longrightarrow> RecordMainConnectionHandler_message co m h = (e, ts) \<Longrightarrow>
        list_all (T h) ts"
    and res: "\<And>t h b e h' b' new. H h \<Longrightarrow> T h t \<Longrightarrow>
        main_resume co st t h b = (e, h', b', new) \<Longrightarrow>
        H h' \<and> list_all (T h') new \<and> (\<forall>t'. T h t' \<longrightarrow> T h' t')"
    and cl: "\<And>h. H h \<Longrightarrow> H (close h) \<and> (\<forall>t. T h t \<longrightarrow> T (close h) t)"
    and inv: "H (sess_handler s) \<and> list_all (T (sess_handler s)) (sess_tasks s)"
  shows "H (sess_handler (main_step co st a s))
       \<and> list_all (T (sess_handler (main_step co st a s))) (sess_tasks (main_step co st a s))"
proof (cases a)
  case (Publish data)
  then show ?thesis
    using inv start [of "sess_handler s" data] by (simp add: main_step_def Let_def)
next
  case (ClientData m)
  obtain e ts where p: "RecordMainConnectionHandler_message co m (sess_handler s) = (e, ts)"
    by (cases "RecordMainConnectionHandler_message co m (sess_handler s)")
  from ClientData show ?thesis
    using inv msg [OF _ p] by (simp add: main_step_def Let_def p)
next
  case (Resume n)
  show ?thesis
  proof (cases "n < length (sess_tasks s)")
    case False
    with Resume inv show ?thesis by (simp add: main_step_def Let_def)
  next
    case True
    obtain e h' b' new where
      p: "main_resume co st (sess_tasks s ! n) (sess_handler s) (sess_bus s) = (e, h', b', new)"
      by (metis prod_cases4)
    have tn: "T (sess_handler s) (sess_tasks s ! n)"
      using inv True by (simp add: list_all_length)
    from res [OF _ tn p] inv
    have r: "H h'" "list_all (T h') new" "\<And>t'. T (sess_handler s) t' \<Longrightarrow> T h' t'"
      by auto
    have old: "list_all (T h') (take n (sess_tasks s))" "list_all (T h') (drop (Suc n) (sess_tasks s))"
      using inv r(3) by (auto simp: list_all_iff dest: in_set_takeD in_set_dropD)
    from Resume True show ?thesis
      using r(1,2) old by (simp add: main_step_def Let_def p)
  qed
next
  case Close
  then show ?thesis
    using inv cl [of "sess_handler s"] by (auto simp: main_step_def Let_def list_all_iff)
qed

lemma main_run_inv:
  fixes H :: "RecordMainConnectionHandler \<Rightarrow> bool"
    and T :: "RecordMainConnectionHandler \<Rightarrow> MainTask \<Rightarrow> bool"
  assumes start: "\<And>data h. H h \<Longrightarrow>
        list_all (T h) (RecordMainConnectionHandler_onRecordChange_start data h)"
    and msg: "\<And>m h e ts. H h \<Longrightarrow> RecordMainConnectionHandler_message co m h = (e, ts) \<Longrightarrow>
        list_all (T h) ts"
    and res: "\<And>t h b e h' b' new. H h \<Longrightarrow> T h t \<Longrightarrow>
        main_resume co st t h b = (e, h', b', new) \<Longrightarrow>
        H h' \<and> list_all (T h') new \<and> (\<forall>t'. T h t' \<longrightarrow> T h' t')"
    and cl: "\<And>h. H h \<Longrightarrow> H (close h) \<and> (\<forall>t. T h t \<longrightarrow> T (close h) t)"
  shows "H (sess_handler s) \<and> list_all (T (sess_handler s)) (sess_tasks s) \<Longrightarrow>
         H (sess_handler (main_run co st schedule s))
       \<and> list_all (T (sess_handler (main_run co st schedule s)))
           (sess_tasks (main_run co st schedule s))"
proof (induction schedule arbitrary: s)
  case Nil
  then show ?case by (simp add: main_run_def)
next
  case (Cons a rest)
  have "H (sess_handler (main_step co st a s))
      \<and> list_all (T (sess_handler (main_step co st a s))) (sess_tasks (main_step co st a s))"
    by (rule main_step_inv [where H=H and T=T, OF start msg res cl Cons.prems])
  from Cons.IH [OF this] show ?case by (simp add: main_run_def)
qed

lemma main_open_unfiltered:
  assumes "\<not> truthy tid"
  shows "sess_tasks (main_open co user d tid b) = []
       \<and> conn_tid (sess_handler (main_open co user d tid b)) = None
       \<and> conn_sent (sess_handler (main_open co user d tid b)) = []
       \<and> conn_rendered (sess_handler (main_open co user d tid b)) = []"
  using assms
  by (simp add: main_open_def RecordMainConnectionHandler_prepare_def Let_def
      subscribe_record_change_def bus_subscribe_def new_main_def)

text \<open>
  C9. A list session opened with no contest filter keeps \<^verbatim>\<open>this.tid\<close> unassigned, and its
  event handler drops every event whose record carries a contest association in its first
  statement, before any \<^verbatim>\<open>await\<close>: nothing is fetched, rendered or sent. Under every
  schedule of live events, resync requests, resumed tasks and closes, every row the
  session renders is for a record with no contest association, and every message it sends
  is the rendering of one of those rows.
\<close>

theorem unfiltered_list_drops_contest_records:
  assumes "\<not> truthy tid"
  shows "(\<forall>h data. conn_tid h = None \<and> rdoc_contest (ev_rdoc data) \<noteq> None \<longrightarrow>
            RecordMainConnectionHandler_onRecordChange co data h = h
            \<and> RecordMainConnectionHandler_onRecordChange_start data h = [])
       \<and> conn_tid (sess_handler (main_run co st schedule (main_open co user d tid b))) = None
       \<and> list_all (\<lambda>(name, ctx). rdoc_contest (ctx_rdoc ctx) = None)
            (conn_rendered (sess_handler (main_run co st schedule (main_open co user d tid b))))
       \<and> set (conn_sent (sess_handler (main_run co st schedule (main_open co user d tid b))))
           \<subseteq> (\<lambda>(name, ctx). HtmlMsg (renderHTML co name ctx))
               ` set (conn_rendered (sess_handler (main_run co st schedule (main_open co user d tid b))))"
proof -
  let ?R = "\<lambda>h :: RecordMainConnectionHandler.
              (\<lambda>(name, ctx). HtmlMsg (renderHTML co name ctx)) ` set (conn_rendered h)"
  let ?H = "\<lambda>h :: RecordMainConnectionHandler. conn_tid h = None
              \<and> list_all (\<lambda>(name, ctx). rdoc_contest (ctx_rdoc ctx) = None) (conn_rendered h)
              \<and> set (conn_sent h) \<subseteq> ?R h"
  let ?T = "\<lambda>(h :: RecordMainConnectionHandler) t.
              case t of
                MPrepareContest domainId t oid \<Rightarrow> False
              | MMessageRecords domainId rids \<Rightarrow> True
              | MChangeDocs rdoc domainId \<Rightarrow> rdoc_contest rdoc = None
              | MChangeRow html \<Rightarrow> HtmlMsg html \<in> ?R h"
  have drop: "RecordMainConnectionHandler_onRecordChange co data h = h
            \<and> RecordMainConnectionHandler_onRecordChange_start data h = []"
    if "conn_tid h = None" "rdoc_contest (ev_rdoc data) \<noteq> None" for h data
    using that
    by (auto simp: RecordMainConnectionHandler_onRecordChange_def
        RecordMainConnectionHandler_onRecordChange_start_def Let_def)
  have start: "list_all (?T h) (RecordMainConnectionHandler_onRecordChange_start data h)"
    if "?H h" for data h
    using that
    by (auto simp: RecordMainConnectionHandler_onRecordChange_start_def Let_def
        split: option.splits)
  have startc: "list_all (?T h)
      (concat (map (\<lambda>rdoc. RecordMainConnectionHandler_onRecordChange_start (f rdoc) h) rs))"
    if "?H h" for h f rs
    using start [OF that] by (induction rs) simp_all
  have msg: "list_all (?T h) ts"
    if "?H h" "RecordMainConnectionHandler_message co m h = (e, ts)" for m h e ts
    using that
    by (auto simp: RecordMainConnectionHandler_message_def split: option.splits sum.splits)
  have res: "?H h' \<and> list_all (?T h') new \<and> (\<forall>t'. ?T h t' \<longrightarrow> ?T h' t')"
    if "?H h" "?T h t" "main_resume co st t h b = (e, h', b', new)" for t h b e h' b' new
  proof (cases t)
    case (MPrepareContest x1 x2 x3)
    with that show ?thesis by simp
  next
    case (MMessageRecords domainId rids)
    with that have e: "h' = h"
      and n: "new = concat (map (\<lambda>rdoc. RecordMainConnectionHandler_onRecordChange_start
                             \<lparr>ev_rdoc = rdoc, ev_set = None, ev_push = None\<rparr> h)
                  (record_getMulti_in st domainId rids))"
      by auto
    have "list_all (?T h) new"
      unfolding n by (rule startc [OF that(1)])
    with that(1) show ?thesis unfolding e by simp
  next
    case (MChangeDocs rdoc domainId)
    with that show ?thesis
      by (auto simp: Let_def render_def split: if_splits MainTask.splits)
  next
    case (MChangeRow html)
    with that show ?thesis
      by (auto simp: send_def split: MainTask.splits)
  qed
  have cl: "?H (close h) \<and> (\<forall>t. ?T h t \<longrightarrow> ?T (close h) t)" if "?H h" for h
    using that by (auto simp: close_def split: MainTask.splits)
  have init: "?H (sess_handler (main_open co user d tid b))
            \<and> list_all (?T (sess_handler (main_open co user d tid b)))
                (sess_tasks (main_open co user d tid b))"
    using main_open_unfiltered [OF assms, of co user d b] by simp
  have "?H (sess_handler (main_run co st schedule (main_open co user d tid b)))
      \<and> list_all (?T (sess_handler (main_run co st schedule (main_open co user d tid b))))
          (sess_tasks (main_run co st schedule (main_open co user d tid b)))"
  proof (rule main_run_inv [where H="?H" and T="?T"])
    show "list_all (?T h) (RecordMainConnectionHandler_onRecordChange_start data h)"
      if "?H h" for data h using start [OF that] .
    show "list_all (?T h) ts"
      if "?H h" "RecordMainConnectionHandler_message co m h = (e, ts)" for m h e ts
      using msg [OF that] .
    show "?H h' \<and> list_all (?T h') new \<and> (\<forall>t'. ?T h t' \<longrightarrow> ?T h' t')"
      if "?H h" "?T h t" "main_resume co st t h b = (e, h', b', new)" for t h b e h' b' new
      using res [OF that] .
    show "?H (close h) \<and> (\<forall>t. ?T h t \<longrightarrow> ?T (close h) t)" if "?H h" for h
      using cl [OF that] .
    show "?H (sess_handler (main_open co user d tid b))
            \<and> list_all (?T (sess_handler (main_open co user d tid b)))
                (sess_tasks (main_open co user d tid b))"
      using init .
  qed
  with drop show ?thesis by blast
qed

theorem unfiltered_list_drops_contest_records_witness:
  "\<not> truthy None
   \<and> RecordMainConnectionHandler_onRecordChange ex_collab (ex_event ex_R4)
       ((new_main ex_viewer)\<lparr>conn_domainId := Some ''system''\<rparr>) =
       (new_main ex_viewer)\<lparr>conn_domainId := Some ''system''\<rparr>
   \<and> list_all (\<lambda>(name, ctx). rdoc_contest (ctx_rdoc ctx) = None)
        (conn_rendered (sess_handler (main_run ex_collab ex_store
           [Publish (ex_event ex_R4), Publish (ex_event ex_R1), Resume 0, Resume 0]
           (main_open ex_collab ex_viewer ''system'' None ex_bus))))"
proof -
  have t: "\<not> truthy None" by simp
  have "conn_tid ((new_main ex_viewer)\<lparr>conn_domainId := Some ''system''\<rparr>) = None
      \<and> rdoc_contest (ev_rdoc (ex_event ex_R4)) \<noteq> None"
    by (simp add: new_main_def ex_event_def ex_R4_def)
  with unfiltered_list_drops_contest_records [OF t, of ex_collab] t
    unfiltered_list_drops_contest_records [OF t, of ex_collab ex_store
      "[Publish (ex_event ex_R4), Publish (ex_event ex_R1), Resume 0, Resume 0]"
      ex_viewer "''system''" ex_bus]
  show ?thesis by blast
qed

text \<open>
  A list session filtered to a contest drops the events of records that belong to another
  contest.
\<close>

lemma filtered_list_drops_other_contests:
  assumes "rdoc_contest (ev_rdoc data) = Some c"
    and "conn_tid h \<noteq> Some (TidString (ObjectID_toString (contest_tid c)))"
  shows "RecordMainConnectionHandler_onRecordChange co data h = h"
proof -
  have "strict_neq (ObjectID_toString (contest_tid c)) (conn_tid h)"
    using assms(2) by (cases "(ObjectID_toString (contest_tid c), conn_tid h)" rule: strict_neq.cases) auto
  with assms(1) show ?thesis by (simp add: main_onRecordChange_char)
qed

text \<open>
  A record with no contest association passes the contest test of every list session,
  whatever its filter.
\<close>

lemma list_sends_record_without_contest:
  assumes "rdoc_contest (ev_rdoc data) = None"
    and "\<not> (case problem_get co (conn_domainId h) (rdoc_pid (ev_rdoc data)) of
               None \<Rightarrow> False
             | Some p \<Rightarrow> pdoc_hidden p \<and> \<not> hasPerm (conn_user h) PERM_VIEW_PROBLEM_HIDDEN)"
  shows "conn_sent (RecordMainConnectionHandler_onRecordChange co data h) =
           conn_sent h @
             [HtmlMsg (renderHTML co ''record_main_tr.html''
                (RowCtx (ev_rdoc data)
                   (user_getById co (conn_domainId h) (rdoc_uid (ev_rdoc data)))
                   (problem_get co (conn_domainId h) (rdoc_pid (ev_rdoc data)))))]"
  using assms by (simp add: main_onRecordChange_char)

text \<open>
  C2. The claim asks that a list session filtered to a contest sends no row for a record
  outside that contest, and that a record with no contest association reaches the
  unfiltered sessions only. On the code, the handler skips its contest test when the
  record has no contest association: the record \<open>ex_R1\<close> (no contest, problem not hidden)
  is sent as a row by the session filtered to the contest \<open>ex_T1\<close>, under either
  representation of the filter, as it is by the unfiltered session.
\<close>

theorem filtered_list_sends_record_without_contest:
  "conn_sent (sess_handler (main_run ex_collab ex_store
       [Resume 0, Publish (ex_event ex_R1), Resume 0, Resume 0]
       (main_open ex_collab ex_viewer ''system'' (Some (TidString ex_T1)) ex_bus))) =
     [HtmlMsg ''record_main_tr.html#5f0000000000000000000001'']
   \<and> conn_sent (sess_handler (main_run ex_collab ex_store
       [Resume 0, Publish (ex_event ex_R1), Resume 0, Resume 0]
       (main_open ex_collab ex_viewer ''system'' (Some (TidObject ex_T1)) ex_bus))) =
     [HtmlMsg ''record_main_tr.html#5f0000000000000000000001'']
   \<and> conn_sent (sess_handler (main_run ex_collab ex_store
       [Publish (ex_event ex_R1), Resume 0, Resume 0]
       (main_open ex_collab ex_viewer ''system'' None ex_bus))) =
     [HtmlMsg ''record_main_tr.html#5f0000000000000000000001'']
   \<and> conn_tid (sess_handler (main_run ex_collab ex_store
       [Resume 0, Publish (ex_event ex_R1), Resume 0, Resume 0]
       (main_open ex_collab ex_viewer ''system'' (Some (TidString ex_T1)) ex_bus))) =
     Some (TidString ex_T1)
   \<and> rdoc_contest ex_R1 = None"
  by (simp add: run_defs ex_records ex_fields ex_collab_def ex_bus_def ex_T1_def ex_event_def)

text \<open>
  For a viewer lacking the hidden-problem permission, a list session sends no row for a
  record whose problem is hidden, neither for a live event nor for a resync request: the
  handler drops the update once the problem is fetched. Under every schedule every
  rendered row is for a record whose problem is absent or not hidden, and every message
  sent is the rendering of one of those rows.
\<close>

lemma main_open_fields:
  "conn_user (sess_handler (main_open co user d tid b)) = user
   \<and> conn_domainId (sess_handler (main_open co user d tid b)) = Some d
   \<and> conn_sent (sess_handler (main_open co user d tid b)) = []
   \<and> conn_rendered (sess_handler (main_open co user d tid b)) = []
   \<and> list_all (\<lambda>t. case t of MPrepareContest domainId t oid \<Rightarrow> True | MMessageRecords domainId rids \<Rightarrow> False
                | MChangeDocs rdoc domainId \<Rightarrow> False | MChangeRow html \<Rightarrow> False)
        (sess_tasks (main_open co user d tid b))"
  by (auto simp: main_open_def RecordMainConnectionHandler_prepare_def Let_def
      subscribe_record_change_def bus_subscribe_def new_main_def split: option.splits sum.splits)

lemma list_drops_hidden_problem_rows:
  assumes "\<not> hasPerm user PERM_VIEW_PROBLEM_HIDDEN"
  shows "(\<forall>h data p. conn_user h = user
            \<and> problem_get co (conn_domainId h) (rdoc_pid (ev_rdoc data)) = Some p \<and> pdoc_hidden p
            \<longrightarrow> RecordMainConnectionHandler_onRecordChange co data h = h)
       \<and> (\<forall>h b rdoc domainId p. conn_user h = user
            \<and> problem_get co domainId (rdoc_pid rdoc) = Some p \<and> pdoc_hidden p
            \<longrightarrow> main_resume co st (MChangeDocs rdoc domainId) h b = (None, h, b, []))
       \<and> list_all (\<lambda>(name, ctx).
             case problem_get co (Some d) (rdoc_pid (ctx_rdoc ctx)) of
               None \<Rightarrow> True | Some p \<Rightarrow> \<not> pdoc_hidden p)
            (conn_rendered (sess_handler (main_run co st schedule (main_open co user d tid b))))
       \<and> set (conn_sent (sess_handler (main_run co st schedule (main_open co user d tid b))))
           \<subseteq> (\<lambda>(name, ctx). HtmlMsg (renderHTML co name ctx))
               ` set (conn_rendered (sess_handler (main_run co st schedule (main_open co user d tid b))))"
proof -
  let ?R = "\<lambda>h :: RecordMainConnectionHandler.
              (\<lambda>(name, ctx). HtmlMsg (renderHTML co name ctx)) ` set (conn_rendered h)"
  let ?H = "\<lambda>h :: RecordMainConnectionHandler. conn_user h = user \<and> conn_domainId h = Some d
              \<and> list_all (\<lambda>(name, ctx).
                    case problem_get co (Some d) (rdoc_pid (ctx_rdoc ctx)) of
                      None \<Rightarrow> True | Some p \<Rightarrow> \<not> pdoc_hidden p) (conn_rendered h)
              \<and> set (conn_sent h) \<subseteq> ?R h"
  let ?T = "\<lambda>(h :: RecordMainConnectionHandler) t.
              case t of
                MPrepareContest domainId t oid \<Rightarrow> True
              | MMessageRecords domainId rids \<Rightarrow> domainId = Some d
              | MChangeDocs rdoc domainId \<Rightarrow> domainId = Some d
              | MChangeRow html \<Rightarrow> HtmlMsg html \<in> ?R h"
  have drop: "RecordMainConnectionHandler_onRecordChange co data h = h"
    if "conn_user h = user"
      "problem_get co (conn_domainId h) (rdoc_pid (ev_rdoc data)) = Some p" "pdoc_hidden p"
    for h data p
    using that assms by (simp add: RecordMainConnectionHandler_onRecordChange_def Let_def)
  have drop': "main_resume co st (MChangeDocs rdoc domainId) h b = (None, h, b, [])"
    if "conn_user h = user" "problem_get co domainId (rdoc_pid rdoc) = Some p" "pdoc_hidden p"
    for h b rdoc domainId p
    using that assms by (simp add: Let_def)
  have start: "list_all (?T h) (RecordMainConnectionHandler_onRecordChange_start data h)"
    if "?H h" for data h
    using that
    by (auto simp: RecordMainConnectionHandler_onRecordChange_start_def Let_def
        split: option.splits)
  have startc: "list_all (?T h)
      (concat (map (\<lambda>rdoc. RecordMainConnectionHandler_onRecordChange_start (f rdoc) h) rs))"
    if "?H h" for h f rs
    using start [OF that] by (induction rs) simp_all
  have msg: "list_all (?T h) ts"
    if "?H h" "RecordMainConnectionHandler_message co m h = (e, ts)" for m h e ts
    using that
    by (auto simp: RecordMainConnectionHandler_message_def split: option.splits sum.splits)
  have res: "?H h' \<and> list_all (?T h') new \<and> (\<forall>t'. ?T h t' \<longrightarrow> ?T h' t')"
    if "?H h" "?T h t" "main_resume co st t h b = (e, h', b', new)" for t h b e h' b' new
  proof (cases t)
    case (MPrepareContest x1 x2 x3)
    with that show ?thesis
      by (auto simp: subscribe_record_change_def bus_subscribe_def close_def
          split: sum.splits if_splits MainTask.splits)
  next
    case (MMessageRecords domainId rids)
    with that have e: "h' = h"
      and n: "new = concat (map (\<lambda>rdoc. RecordMainConnectionHandler_onRecordChange_start
                             \<lparr>ev_rdoc = rdoc, ev_set = None, ev_push = None\<rparr> h)
                  (record_getMulti_in st domainId rids))"
      by auto
    have "list_all (?T h) new"
      unfolding n by (rule startc [OF that(1)])
    with that(1) show ?thesis unfolding e by simp
  next
    case (MChangeDocs rdoc domainId)
    with that assms show ?thesis
      by (auto simp: Let_def render_def split: if_splits MainTask.splits option.splits)
  next
    case (MChangeRow html)
    with that show ?thesis
      by (auto simp: send_def split: MainTask.splits)
  qed
  have cl: "?H (close h) \<and> (\<forall>t. ?T h t \<longrightarrow> ?T (close h) t)" if "?H h" for h
    using that by (auto simp: close_def split: MainTask.splits)
  have init: "?H (sess_handler (main_open co user d tid b))
            \<and> list_all (?T (sess_handler (main_open co user d tid b)))
                (sess_tasks (main_open co user d tid b))"
    using main_open_fields [of co user d tid b]
    by (auto simp: list_all_iff split: MainTask.splits)
  have "?H (sess_handler (main_run co st schedule (main_open co user d tid b)))
      \<and> list_all (?T (sess_handler (main_run co st schedule (main_open co user d tid b))))
          (sess_tasks (main_run co st schedule (main_open co user d tid b)))"
  proof (rule main_run_inv [where H="?H" and T="?T"])
    show "list_all (?T h) (RecordMainConnectionHandler_onRecordChange_start data h)"
      if "?H h" for data h using start [OF that] .
    show "list_all (?T h) ts"
      if "?H h" "RecordMainConnectionHandler_message co m h = (e, ts)" for m h e ts
      using msg [OF that] .
    show "?H h' \<and> list_all (?T h') new \<and> (\<forall>t'. ?T h t' \<longrightarrow> ?T h' t')"
      if "?H h" "?T h t" "main_resume co st t h b = (e, h', b', new)" for t h b e h' b' new
      using res [OF that] .
    show "?H (close h) \<and> (\<forall>t. ?T h t \<longrightarrow> ?T (close h) t)" if "?H h" for h
      using cl [OF that] .
    show "?H (sess_handler (main_open co user d tid b))
            \<and> list_all (?T (sess_handler (main_open co user d tid b)))
                (sess_tasks (main_open co user d tid b))"
      using init .
  qed
  with drop drop' show ?thesis by blast
qed

text \<open>
  The detail handler does not read the problem collection or the viewer's permissions.
\<close>

lemma detail_onRecordChange_ignores_problem:
  "RecordDetailConnectionHandler_onRecordChange (co\<lparr>problem_get := pg\<rparr>) data
     (h\<lparr>conn_user := u\<rparr>) =
   (RecordDetailConnectionHandler_onRecordChange co data h)\<lparr>conn_user := u\<rparr>"
  by (simp add: RecordDetailConnectionHandler_onRecordChange_def Let_def render_def send_def
      split: option.splits)

text \<open>
  C6. The claim asks that a viewer lacking the hidden-problem permission is sent no
  payload for a record tied to a hidden problem, as a list row or as a detail payload. The
  list session keeps to it (\<open>list_drops_hidden_problem_rows\<close>); the detail view makes no
  hidden-problem test. The viewer \<open>ex_viewer\<close> lacks the permission and the record \<open>ex_R3\<close>
  is on the hidden problem \<^verbatim>\<open>PH\<close>: the detail session for \<open>ex_R3\<close> sends the snapshot and
  the patch of a later event, and the detail page carries the record and the hidden
  problem's document.
\<close>

theorem detail_sends_hidden_problem_record:
  "hasPerm ex_viewer PERM_VIEW_PROBLEM_HIDDEN = False
   \<and> map_option pdoc_hidden (problem_get ex_collab (Some ''system'') (rdoc_pid ex_R3)) = Some True
   \<and> conn_sent (sess_handler (detail_run ex_collab ex_store
        [Resume 0, Resume 0, Resume 0,
         Publish \<lparr>ev_rdoc = ex_R3, ev_set = Some [(''status'', ''AC'')], ev_push = Some []\<rparr>]
        (detail_open ex_viewer ''system'' ''5f0000000000000000000003'' ex_bus))) =
       [SnapshotMsg ''record_detail_status.html#5f0000000000000000000003''
                    ''record_detail_summary.html#5f0000000000000000000003'',
        PatchMsg (Some [(''status'', ''AC'')]) (Some [])]
   \<and> RecordDetailHandler_get ex_collab ex_store ex_viewer ''system'' ''5f0000000000000000000003'' =
       Inr (Page ''record_detail.html''
              [(''Hydro'', Some ''homepage''), (''record_detail'', None)]
              (Some \<lparr>udoc_id = 1, udoc_uname = ''user''\<rparr>)
              (ex_R3\<lparr>rdoc_code := None\<rparr>)
              (Some \<lparr>pdoc_pid = ''PH'', pdoc_title = ''Secret'', pdoc_hidden = True\<rparr>))"
  by (simp add: run_defs RecordDetailHandler_get_def ex_records ex_fields ex_collab_def ex_bus_def)

subsection \<open>The code field\<close>

lemma RecordDetailHandler_get_scrubs_code:
  assumes "RecordDetailHandler_get co st user domainId rid = Inr (Page t path udoc rdoc pdoc)"
    and "rdoc_uid rdoc \<noteq> user_uid user" and "\<not> hasPerm user PERM_READ_RECORD_CODE"
  shows "rdoc_code rdoc = None"
  using assms
  by (auto simp: RecordDetailHandler_get_def Let_def split: option.splits sum.splits if_splits)

text \<open>
  C3. The claim asks that a viewer who neither owns the record nor holds the code-read
  permission gets no code on any egress path. On the code only the detail page removes
  it. For the viewer \<open>ex_viewer\<close> and the record \<open>ex_R2\<close> of another user, the detail page
  is built from the record with its code removed, while the detail session renders its
  snapshot from the record with the code in place and forwards a \<^verbatim>\<open>$set\<close> holding the
  code as it came, and the list session renders its row from the record with the code in
  place.
\<close>

theorem code_scrubbed_on_detail_page_only:
  "rdoc_uid ex_R2 \<noteq> user_uid ex_viewer
   \<and> hasPerm ex_viewer PERM_READ_RECORD_CODE = False
   \<and> rdoc_code ex_R2 = Some ''print(42)''
   \<and> RecordDetailHandler_get ex_collab ex_store ex_viewer ''system'' ''5f0000000000000000000002'' =
       Inr (Page ''record_detail.html''
              [(''Hydro'', Some ''homepage''), (''record_detail'', None)]
              (Some \<lparr>udoc_id = 1, udoc_uname = ''user''\<rparr>)
              (ex_R2\<lparr>rdoc_code := None\<rparr>)
              (Some \<lparr>pdoc_pid = ''P1'', pdoc_title = ''A+B'', pdoc_hidden = False\<rparr>))
   \<and> conn_rendered (sess_handler (detail_run ex_collab ex_store
        [Resume 0, Resume 0, Resume 0,
         Publish \<lparr>ev_rdoc = ex_R2, ev_set = Some [(''code'', ''print(42)'')], ev_push = None\<rparr>]
        (detail_open ex_viewer ''system'' ''5f0000000000000000000002'' ex_bus))) =
       [(''record_detail_status.html'', DetailCtx ex_R2),
        (''record_detail_summary.html'', DetailCtx ex_R2)]
   \<and> conn_sent (sess_handler (detail_run ex_collab ex_store
        [Resume 0, Resume 0, Resume 0,
         Publish \<lparr>ev_rdoc = ex_R2, ev_set = Some [(''code'', ''print(42)'')], ev_push = None\<rparr>]
        (detail_open ex_viewer ''system'' ''5f0000000000000000000002'' ex_bus))) =
       [SnapshotMsg ''record_detail_status.html#5f0000000000000000000002''
                    ''record_detail_summary.html#5f0000000000000000000002'',
        PatchMsg (Some [(''code'', ''print(42)'')]) None]
   \<and> conn_rendered (sess_handler (main_run ex_collab ex_store
        [Publish (ex_event ex_R2), Resume 0, Resume 0]
        (main_open ex_collab ex_viewer ''system'' None ex_bus))) =
       [(''record_main_tr.html'',
         RowCtx ex_R2 (Some \<lparr>udoc_id = 1, udoc_uname = ''user''\<rparr>)
           (Some \<lparr>pdoc_pid = ''P1'', pdoc_title = ''A+B'', pdoc_hidden = False\<rparr>))]"
  by (simp add: run_defs RecordDetailHandler_get_def ex_records ex_fields ex_collab_def
      ex_bus_def ex_event_def)

subsection \<open>Missing records\<close>

lemma RecordDetailHandler_get_missing_record:
  "record_get st domainId rid = None \<Longrightarrow>
     RecordDetailHandler_get co st user domainId rid = Inl (RecordNotFoundError rid)"
  by (simp add: RecordDetailHandler_get_def)

lemma RecordDetailConnectionHandler_prepare_missing_record:
  "record_get st domainId rid = None \<Longrightarrow>
     detail_resume co st (DPrepareRecord domainId rid) h b = (Some TypeError, h, b, [])"
  by simp

text \<open>
  C8. The claim asks that a detail view opened with an id that resolves to no document
  aborts with a not-found condition before any subscription, distinct from the permission
  condition. The detail page does so. The detail session does not test the fetched record:
  for the unknown id its \<^verbatim>\<open>prepare\<close> fails with the \<^verbatim>\<open>TypeError\<close> of reading a property of
  \<^verbatim>\<open>null\<close>, leaving the handler and the bus as they were. Where contest visibility fails
  (here for the contest record \<open>ex_R4\<close>), the detail page raises the permission error and
  the detail session closes the connection without raising anything.
\<close>

theorem detail_session_missing_record_type_error:
  "record_get ex_store ''system'' ''5f00000000000000000000ff'' = None
   \<and> RecordDetailHandler_get ex_collab ex_store ex_viewer ''system'' ''5f00000000000000000000ff'' =
       Inl (RecordNotFoundError ''5f00000000000000000000ff'')
   \<and> detail_run ex_collab ex_store [Resume 0]
       (detail_open ex_viewer ''system'' ''5f00000000000000000000ff'' ex_bus) =
       \<lparr>sess_handler = new_detail ex_viewer, sess_bus = ex_bus, sess_tasks = [],
        sess_errors = [TypeError]\<rparr>
   \<and> RecordDetailHandler_get (ex_collab\<lparr>canShowRecord := (\<lambda>u tdoc override. False)\<rparr>)
       ex_store ex_viewer ''system'' ''5f0000000000000000000004'' =
       Inl (PermissionError (ArgId ''5f0000000000000000000004''))
   \<and> detail_run (ex_collab\<lparr>canShowRecord := (\<lambda>u tdoc override. False)\<rparr>) ex_store
       [Resume 0, Resume 0]
       (detail_open ex_viewer ''system'' ''5f0000000000000000000004'' ex_bus) =
       \<lparr>sess_handler = close (new_detail ex_viewer), sess_bus = ex_bus, sess_tasks = [],
        sess_errors = []\<rparr>"
  by (simp add: run_defs RecordDetailHandler_get_def ex_records ex_fields ex_collab_def ex_bus_def)

subsection \<open>Rejudge\<close>

text \<open>
  C7. A rejudge request for a record id that is not in the store changes nothing: the
  records are not reset and nothing is enqueued for judging (the handler never publishes
  by itself), and when the requester holds the rejudge permission, which the handler
  checks first, the request completes with the redirect back and no error.
\<close>

theorem rejudge_missing_record_noop:
  assumes "record_get st domainId rid = None"
  shows "snd (RecordRejudgeHandler_post st user domainId rid) = st
       \<and> (hasPerm user PERM_REJUDGE
            \<longrightarrow> RecordRejudgeHandler_post st user domainId rid = (Inr Back, st))"
  using assms by (simp add: RecordRejudgeHandler_post_def checkPerm_def)

theorem rejudge_missing_record_noop_witness:
  "record_get ex_store ''system'' ''5f00000000000000000000ff'' = None
   \<and> hasPerm ex_admin PERM_REJUDGE
   \<and> RecordRejudgeHandler_post ex_store ex_admin ''system'' ''5f00000000000000000000ff'' =
       (Inr Back, ex_store)"
proof -
  have r: "record_get ex_store ''system'' ''5f00000000000000000000ff'' = None"
    by (simp add: record_get_def ex_store_def ex_R1_def ex_R2_def ex_R3_def ex_R4_def)
  have p: "hasPerm ex_admin PERM_REJUDGE"
    by (simp add: hasPerm_def ex_admin_def)
  from rejudge_missing_record_noop [OF r, of ex_admin] r p show ?thesis
    by simp
qed

end
